theory Spec2Isabelle
  imports Complex_Main "HOL-Library.Char_ord" "HOL-Library.List_Lexorder" "HOL-Library.AList"
begin

section \<open>Data model (types of the compiler: user query, compute nodes)\<close>

text \<open>
  Node ids are strings (\<open>type NodeID = string\<close>).  JavaScript numbers that occur in the
  graph (limits, durations, UNIX timestamps, numeric constants) are modelled as integers.
\<close>

type_synonym NodeID = string

datatype TimeUnit = Second | Minute | Hour | Day | Week | Month | Year

datatype TimeRange =
    AbsoluteTimeRange int int
  | RelativeTimeRange int TimeUnit
  | TradingTimeRange int TimeUnit

text \<open>
  \<open>value: number | string | boolean | string[] | number[]\<close>.  The element type of an array
  is checked by the code at run time, so the model lets an array hold any scalars.
\<close>

datatype 'n Scalar = Str string | Num 'n | Boolean bool

datatype 'n ParameterValue =
    VString string
  | VNumber 'n
  | VBoolean bool
  | VArray "'n Scalar list"

datatype Expression =
    ConstantExpression "int ParameterValue" "string option"
  | MetricExpression string "Filter option" "string option"
  | MathExpression string "Expression list" "string option"
  | AggregateExpression Expression string "TimeRange option" "Filter option" "string option"
and Filter =
    SimpleFilter Expression string Expression
  | CompositeFilter string "Filter list"

text \<open>One projected column: \<open>{name, alias?, sourceNode?}\<close> or \<open>{expression, alias?, sourceNode?}\<close>.\<close>

datatype Column =
    NameColumn string "string option" "NodeID option"
  | ExpressionColumn Expression "string option" "NodeID option"

text \<open>One side of a filter condition: \<open>{input, metric}\<close>, \<open>{parameter}\<close> or an inline expression.\<close>

datatype Side =
    InputSide NodeID string
  | ParameterSide string
  | ExpressionSide Expression

record Condition =
  left :: Side
  right :: Side
  op :: string

record Criterion =
  expression :: string
  direction :: string

record JoinCondition =
  joinLeft :: "NodeID \<times> string"
  joinRight :: "NodeID \<times> string"
  joinOp :: string

record NodeMetadata =
  isGrouping :: bool
  isGrouped :: bool
  groupDimension :: "string option"
  offset :: "int option"
  metaLimit :: "int option"
  isRequiredProjection :: bool
  hasParameter :: bool
  isParameter :: bool

definition emptyMetadata :: NodeMetadata where
  "emptyMetadata = \<lparr> isGrouping = False, isGrouped = False, groupDimension = None,
     offset = None, metaLimit = None, isRequiredProjection = False, hasParameter = False,
     isParameter = False \<rparr>"

text \<open>
  The tagged union \<open>ComputeNode\<close>: the fields of \<open>BaseNode\<close> are the record, the fields of
  each variant are the constructor of \<open>NodeBody\<close>.  An expression node carries its expression
  and its node-level alias.
\<close>

datatype NodeBody =
    Source string "string option"
  | Projection "Column list"
  | ExpressionNode Expression "string option"
  | FilterNode Condition
  | CompositeFilterNode string
  | Sort "Criterion list"
  | Limit int
  | Join string "JoinCondition list"

record ComputeNode =
  nodeId :: NodeID
  inputs :: "NodeID list"
  isTerminal :: bool
  metadata :: "NodeMetadata option"
  body :: NodeBody

text \<open>
  \<open>nodes: Record<NodeID, ComputeNode>\<close>: the nodes in insertion order (the order of
  \<open>Object.values\<close> and \<open>Object.keys\<close>), each stored under its own id.
\<close>

type_synonym Nodes = "ComputeNode list"

definition lookup :: "Nodes \<Rightarrow> NodeID \<Rightarrow> ComputeNode option" where
  "lookup ns k = find (\<lambda>n. nodeId n = k) ns"

definition keys :: "Nodes \<Rightarrow> NodeID list" where
  "keys ns = map nodeId ns"

text \<open>\<open>this.nodes[node.id] = node\<close>: an existing key keeps its place, a new key goes last.\<close>

fun store :: "ComputeNode \<Rightarrow> Nodes \<Rightarrow> Nodes" where
  "store n [] = [n]"
| "store n (m # ms) = (if nodeId m = nodeId n then n # ms else m # store n ms)"

text \<open>\<open>delete this.nodes[id]\<close>.\<close>

definition delete :: "NodeID \<Rightarrow> Nodes \<Rightarrow> Nodes" where
  "delete k ns = filter (\<lambda>n. nodeId n \<noteq> k) ns"

section \<open>removeNode\<close>

text \<open>
  \<open>removeNode(id)\<close>: for every input of the node that is in the graph, \<open>isTerminal\<close> is set to
  \<open>!isStillReferenced\<close>, where the reference test runs over all nodes of the graph at that
  moment; the node itself is deleted afterwards.
\<close>

definition isStillReferenced :: "Nodes \<Rightarrow> NodeID \<Rightarrow> bool" where
  "isStillReferenced ns inputId = list_ex (\<lambda>n. inputId \<in> set (inputs n)) ns"

definition adjustInput :: "NodeID \<Rightarrow> Nodes \<Rightarrow> Nodes" where
  "adjustInput inputId ns =
     (case lookup ns inputId of
        None \<Rightarrow> ns
      | Some inputNode \<Rightarrow> store (inputNode\<lparr>isTerminal := \<not> isStillReferenced ns inputId\<rparr>) ns)"

definition removeNode :: "NodeID \<Rightarrow> Nodes \<Rightarrow> Nodes" where
  "removeNode k ns =
     (case lookup ns k of
        None \<Rightarrow> ns
      | Some node \<Rightarrow> delete k (fold adjustInput (inputs node) ns))"

section \<open>Errors\<close>

text \<open>
  Every \<open>throw\<close> of the compiler is a value: \<open>CycleDetected k\<close> is
  "Cycle detected in graph involving node k", \<open>NodeNotFound k\<close> is "Node k referenced but
  not found in graph", \<open>DanglingInput k i\<close> is "Node k references non-existent input i".
  \<open>TypeError\<close> stands for the run-time error of reading a property of \<open>undefined\<close>,
  \<open>RangeError\<close> for an invalid date or an exhausted call stack, and \<open>NonTermination\<close> for a
  call that does not return.
\<close>

datatype error =
    CycleDetected NodeID
  | NodeNotFound NodeID
  | DanglingInput NodeID NodeID
  | MixedTypeArray
  | UnsupportedArrayType
  | MetricNotFound string
  | GroupingDimensionNotFound string
  | NoCommonPK string string
  | TypeError
  | RangeError
  | NonTermination

section \<open>getExecutionOrder\<close>

text \<open>
  The closure \<open>visit\<close> of \<open>getExecutionOrder\<close> with its three captured variables
  (\<open>orderedNodes\<close>, \<open>visited\<close>, \<open>processing\<close>) as explicit state; \<open>visitInputs\<close> is the
  \<open>for (const inputId of node.inputs)\<close> loop inside it.  An exception aborts the whole
  traversal.
\<close>

record VisitState =
  orderedNodes :: "ComputeNode list"
  visited :: "NodeID set"
  processing :: "NodeID set"

function (domintros) visit :: "Nodes \<Rightarrow> NodeID \<Rightarrow> VisitState \<Rightarrow> error + VisitState"
  and visitInputs :: "Nodes \<Rightarrow> NodeID \<Rightarrow> NodeID list \<Rightarrow> VisitState \<Rightarrow> error + VisitState"
where
  "visit ns k s =
     (if k \<in> processing s then Inl (CycleDetected k)
      else if k \<in> visited s then Inr s
      else (case lookup ns k of
              None \<Rightarrow> Inl (NodeNotFound k)
            | Some node \<Rightarrow>
                (case visitInputs ns k (inputs node) (s\<lparr>processing := insert k (processing s)\<rparr>) of
                   Inl e \<Rightarrow> Inl e
                 | Inr s' \<Rightarrow>
                     Inr (s'\<lparr>processing := processing s' - {k},
                              visited := insert k (visited s'),
                              orderedNodes := orderedNodes s' @ [node]\<rparr>))))"
| "visitInputs ns k [] s = Inr s"
| "visitInputs ns k (inputId # rest) s =
     (if lookup ns inputId = None then Inl (DanglingInput k inputId)
      else (case visit ns inputId s of
              Inl e \<Rightarrow> Inl e
            | Inr s' \<Rightarrow> visitInputs ns k rest s'))"
  by pat_completeness auto

definition visitMeasure :: "(Nodes \<times> NodeID \<times> VisitState) + (Nodes \<times> NodeID \<times> NodeID list \<times> VisitState) \<Rightarrow> nat" where
  "visitMeasure x = (case x of Inl (ns, k, s) \<Rightarrow> card (set (keys ns) - processing s)
                            | Inr (ns, k, ins, s) \<Rightarrow> card (set (keys ns) - processing s))"

definition visitMeasure2 :: "(Nodes \<times> NodeID \<times> VisitState) + (Nodes \<times> NodeID \<times> NodeID list \<times> VisitState) \<Rightarrow> nat" where
  "visitMeasure2 x = (case x of Inl (ns, k, s) \<Rightarrow> 0 | Inr (ns, k, ins, s) \<Rightarrow> Suc (length ins))"

lemma visit_keeps_processing:
  "visit_visitInputs_dom (Inl (ns, k, s)) \<Longrightarrow> visit ns k s = Inr s' \<Longrightarrow> processing s' = processing s"
  "visit_visitInputs_dom (Inr (ns, k, ins, s)) \<Longrightarrow> visitInputs ns k ins s = Inr s' \<Longrightarrow> processing s' = processing s"
proof (induction ns k s and ns k ins s arbitrary: s' and s' rule: visit_visitInputs.pinduct)
  case (1 ns k s)
  note eq = visit.psimps[OF 1(1)]
  show ?case
  proof (cases "k \<in> processing s \<or> k \<in> visited s")
    case True
    then show ?thesis using 1(3) eq by (auto split: if_splits)
  next
    case False
    then obtain node where node: "lookup ns k = Some node"
      using 1(3) eq by (cases "lookup ns k") auto
    then obtain s1 where s1: "visitInputs ns k (inputs node) (s\<lparr>processing := insert k (processing s)\<rparr>) = Inr s1"
      using 1(3) eq False by (cases "visitInputs ns k (inputs node) (s\<lparr>processing := insert k (processing s)\<rparr>)") auto
    have "processing s1 = insert k (processing s)"
      using 1(2)[OF _ _ node s1] False by simp
    moreover have "s' = s1\<lparr>processing := processing s1 - {k},
                              visited := insert k (visited s1),
                              orderedNodes := orderedNodes s1 @ [node]\<rparr>"
      using 1(3) eq False node s1 by simp
    ultimately show ?thesis using False by auto
  qed
next
  case (2 ns k s)
  then show ?case by (simp add: visitInputs.psimps)
next
  case (3 ns k inputId rest s)
  note eq = visitInputs.psimps(2)[OF 3(1)]
  from 3(4) eq have ex: "lookup ns inputId \<noteq> None" by (auto split: if_splits)
  then obtain s1 where s1: "visit ns inputId s = Inr s1"
    using 3(4) eq by (cases "visit ns inputId s") auto
  have "processing s1 = processing s" using 3(2)[OF ex s1] .
  moreover have "visitInputs ns k rest s1 = Inr s'" using 3(4) eq ex s1 by simp
  then have "processing s' = processing s1" using 3(3)[OF ex s1] by simp
  ultimately show ?case by simp
qed

termination visit
proof (relation "measures [visitMeasure, visitMeasure2]")
  show "wf (measures [visitMeasure, visitMeasure2])" by simp
next
  fix ns :: Nodes and k :: NodeID and s :: VisitState and node :: ComputeNode
  assume a: "k \<notin> processing s" "lookup ns k = Some node"
  have "k \<in> set (keys ns)" using a(2)
    by (auto simp: lookup_def keys_def find_Some_iff)
  then have "card (set (keys ns) - insert k (processing s)) < card (set (keys ns) - processing s)"
    using a(1) by (intro psubset_card_mono) auto
  then show "(Inr (ns, k, inputs node, s\<lparr>processing := insert k (processing s)\<rparr>), Inl (ns, k, s)) \<in> measures [visitMeasure, visitMeasure2]"
    by (simp add: visitMeasure_def)
next
  fix ns :: Nodes and k :: NodeID and inputId rest and s :: VisitState
  show "(Inl (ns, inputId, s), Inr (ns, k, inputId # rest, s)) \<in> measures [visitMeasure, visitMeasure2]"
    by (simp add: visitMeasure_def visitMeasure2_def)
next
  fix ns :: Nodes and k :: NodeID and inputId rest and s s' :: VisitState
  assume "visit_visitInputs_dom (Inl (ns, inputId, s))" "visit ns inputId s = Inr s'"
  then have "processing s' = processing s" by (rule visit_keeps_processing(1))
  then show "(Inr (ns, k, rest, s'), Inr (ns, k, inputId # rest, s)) \<in> measures [visitMeasure, visitMeasure2]"
    by (simp add: visitMeasure_def visitMeasure2_def)
qed


declare visit.simps [simp del]

text \<open>
  \<open>getExecutionOrder\<close>: visit the source nodes first, then every key of the graph.
\<close>

definition initialState :: VisitState where
  "initialState = \<lparr> orderedNodes = [], visited = {}, processing = {} \<rparr>"

fun visitAll :: "Nodes \<Rightarrow> NodeID list \<Rightarrow> VisitState \<Rightarrow> error + VisitState" where
  "visitAll ns [] s = Inr s"
| "visitAll ns (k # ks) s =
     (case visit ns k s of Inl e \<Rightarrow> Inl e | Inr s' \<Rightarrow> visitAll ns ks s')"

definition isSource :: "ComputeNode \<Rightarrow> bool" where
  "isSource n = (case body n of Source t c \<Rightarrow> True | _ \<Rightarrow> False)"

definition getExecutionOrder :: "Nodes \<Rightarrow> error + ComputeNode list" where
  "getExecutionOrder ns =
     (case visitAll ns (map nodeId (filter isSource ns)) initialState of
        Inl e \<Rightarrow> Inl e
      | Inr s \<Rightarrow>
          (case visitAll ns (keys ns) s of
             Inl e \<Rightarrow> Inl e
           | Inr s' \<Rightarrow> Inr (orderedNodes s')))"

section \<open>createParameter\<close>

text \<open>Template literals with a natural number: its decimal digits.\<close>

definition digitChar :: "nat \<Rightarrow> char" where
  "digitChar d = ''0123456789'' ! d"

function showNat :: "nat \<Rightarrow> string" where
  "showNat n = (if n < 10 then [digitChar n] else showNat (n div 10) @ [digitChar (n mod 10)])"
  by pat_completeness auto
termination
  by (relation "measure (\<lambda>n. n)") auto

declare showNat.simps [simp del]

text \<open>\<open>s.stringIncludes(t)\<close>: \<open>t\<close> occurs in \<open>s\<close> as a contiguous substring.\<close>

fun stringIncludes :: "string \<Rightarrow> string \<Rightarrow> bool" where
  "stringIncludes [] t = (t = [])"
| "stringIncludes (c # cs) t = (take (length t) (c # cs) = t \<or> stringIncludes cs t)"

datatype TypeOf = TypeString | TypeNumber | TypeBoolean

fun typeof :: "'n Scalar \<Rightarrow> TypeOf" where
  "typeof (Str s) = TypeString"
| "typeof (Num n) = TypeNumber"
| "typeof (Boolean b) = TypeBoolean"

type_synonym 'n Parameters = "(string \<times> 'n ParameterValue) list"

definition placeholder :: "string \<Rightarrow> string \<Rightarrow> string" where
  "placeholder paramName type = ''{'' @ paramName @ '': '' @ type @ ''}''"

definition likeWrap :: "string option \<Rightarrow> 'n ParameterValue \<Rightarrow> 'n ParameterValue" where
  "likeWrap operator v =
     (case v of
        VString s \<Rightarrow>
          (case operator of
             Some opr \<Rightarrow> if stringIncludes opr ''LIKE'' then VString (''%'' @ s @ ''%'') else v
           | None \<Rightarrow> v)
      | _ \<Rightarrow> v)"

definition arrayType :: "'n Scalar \<Rightarrow> string" where
  "arrayType x = (case typeof x of
                    TypeString \<Rightarrow> ''Array(String)''
                  | TypeNumber \<Rightarrow> ''Array(Float64)''
                  | TypeBoolean \<Rightarrow> ''Array(Boolean)'')"

text \<open>
  \<open>createParameter(value, op)\<close> on the parameter table \<open>this.parameters\<close> (an object whose
  keys keep insertion order).  \<open>String\<close> is JavaScript's number-to-string conversion.  The
  final \<open>else throw new Error('Unsupported array type')\<close> needs an array element that is
  neither string, number nor boolean, which the parameter type excludes.
\<close>

definition createParameter ::
  "('n \<Rightarrow> string) \<Rightarrow> 'n ParameterValue \<Rightarrow> string option \<Rightarrow> 'n Parameters \<Rightarrow>
     error + (string \<times> 'n Parameters)" where
  "createParameter String value0 operator parameters =
     (let paramLength = length parameters;
          paramName = ''param_'' @ showNat (paramLength + 1);
          v = likeWrap operator value0
      in case v of
           VString s \<Rightarrow>
             Inr (placeholder paramName ''String'', AList.update paramName v parameters)
         | VNumber n \<Rightarrow> Inr (String n, parameters)
         | VBoolean b \<Rightarrow> Inr (if b then ''1'' else ''0'', parameters)
         | VArray xs \<Rightarrow>
             (case xs of
                [] \<Rightarrow> Inr (''[]'', parameters)
              | x # rest \<Rightarrow>
                  if \<not> list_all (\<lambda>y. typeof y = typeof x) xs then Inl MixedTypeArray
                  else Inr (placeholder paramName (arrayType x),
                            AList.update paramName v parameters)))"

text \<open>
  Vocabulary of the parameter claims: the name the next stored parameter gets, whether the
  operator asks for the \<open>%value%\<close> wrapping, whether all elements of an array have the type
  of the first, what a call stores (if anything), the names \<open>param_1 .. param_n\<close>, and
  reading decimal digits back (to show that distinct numbers give distinct names).
\<close>

definition paramName :: "'n Parameters \<Rightarrow> string" where
  "paramName parameters = ''param_'' @ showNat (length parameters + 1)"

definition likeOperator :: "string option \<Rightarrow> bool" where
  "likeOperator operator = (case operator of Some opr \<Rightarrow> stringIncludes opr ''LIKE'' | None \<Rightarrow> False)"

definition sameTypes :: "'n Scalar list \<Rightarrow> bool" where
  "sameTypes xs = list_all (\<lambda>y. typeof y = typeof (hd xs)) xs"

fun stored :: "'n ParameterValue \<times> string option \<Rightarrow> 'n ParameterValue option" where
  "stored (VString s, operator) = Some (VString (if likeOperator operator then ''%'' @ s @ ''%'' else s))"
| "stored (VNumber n, operator) = None"
| "stored (VBoolean b, operator) = None"
| "stored (VArray xs, operator) = (if xs = [] then None else Some (VArray xs))"

text \<open>\<open>String(n)\<close> for an integer.\<close>

definition numberToString :: "int \<Rightarrow> string" where
  "numberToString i = (if i < 0 then ''-'' @ showNat (nat (- i)) else showNat (nat i))"

text \<open>A run of \<open>createParameter\<close> calls on one parameter table.\<close>

fun createParameters ::
  "('n \<Rightarrow> string) \<Rightarrow> ('n ParameterValue \<times> string option) list \<Rightarrow> 'n Parameters \<Rightarrow>
     error + (string list \<times> 'n Parameters)" where
  "createParameters String [] parameters = Inr ([], parameters)"
| "createParameters String ((v, operator) # rest) parameters =
     (case createParameter String v operator parameters of
        Inl e \<Rightarrow> Inl e
      | Inr (out, parameters') \<Rightarrow>
          (case createParameters String rest parameters' of
             Inl e \<Rightarrow> Inl e
           | Inr (outs, parameters'') \<Rightarrow> Inr (out # outs, parameters'')))"

definition paramNames :: "nat \<Rightarrow> string list" where
  "paramNames n = map (\<lambda>i. ''param_'' @ showNat i) [1..<Suc n]"

definition digitVal :: "char \<Rightarrow> nat" where
  "digitVal c = length (takeWhile (\<lambda>d. d \<noteq> c) ''0123456789'')"

fun readNat :: "string \<Rightarrow> nat" where
  "readNat cs = foldl (\<lambda>acc c. 10 * acc + digitVal c) 0 cs"

definition parameterRun :: "(int ParameterValue \<times> string option) list" where
  "parameterRun =
     [(VString ''Technology'', None), (VNumber 100, None), (VString ''Inc'', Some ''LIKE''),
      (VBoolean True, None), (VArray [], None), (VArray [Num 1, Num 2], Some ''IN'')]"

section \<open>SQL emission: time-range PREWHERE\<close>

text \<open>\<open>TableConfig\<close>, the fields the compiler reads.\<close>

record TableConfig =
  tableName :: string
  timeColumn :: "string option"
  primaryKeys :: "string list"
  alwaysIncludeColumns :: "string list option"

text \<open>
  JavaScript's \<open>new Date(ms).toISOString()\<close> for an integral time value: \<open>isoDatePart\<close> is
  the text before the \<open>T\<close> (the proleptic Gregorian date of day \<open>ms div 86400000\<close> since
  1970-01-01; years outside 0..9999 are written with a sign and six digits), \<open>isoDate\<close> is
  \<open>.slice(0, 10)\<close>.  A time value beyond 8.64e15 makes \<open>toISOString\<close> throw a \<open>RangeError\<close>.
\<close>

definition civilFromDays :: "int \<Rightarrow> int \<times> int \<times> int" where
  "civilFromDays z0 =
     (let z = z0 + 719468;
          era = z div 146097;
          doe = z - era * 146097;
          yoe = (doe - doe div 1460 + doe div 36524 - doe div 146096) div 365;
          y = yoe + era * 400;
          doy = doe - (365 * yoe + yoe div 4 - yoe div 100);
          mp = (5 * doy + 2) div 153;
          d = doy - (153 * mp + 2) div 5 + 1;
          m = (if mp < 10 then mp + 3 else mp - 9)
      in (if m \<le> 2 then y + 1 else y, m, d))"

definition padStart :: "nat \<Rightarrow> string \<Rightarrow> string" where
  "padStart w s = replicate (w - length s) CHR ''0'' @ s"

definition isoYear :: "int \<Rightarrow> string" where
  "isoYear y =
     (if 0 \<le> y \<and> y \<le> 9999 then padStart 4 (showNat (nat y))
      else (if y < 0 then ''-'' else ''+'') @ padStart 6 (showNat (nat \<bar>y\<bar>)))"

definition isoDatePart :: "int \<Rightarrow> error + string" where
  "isoDatePart ms =
     (if \<bar>ms\<bar> > 8640000000000000 then Inl RangeError
      else (case civilFromDays (ms div 86400000) of
              (y, m, d) \<Rightarrow>
                Inr (isoYear y @ ''-'' @ padStart 2 (showNat (nat m)) @ ''-'' @
                     padStart 2 (showNat (nat d)))))"

definition isoDate :: "int \<Rightarrow> error + string" where
  "isoDate ms = (case isoDatePart ms of Inl e \<Rightarrow> Inl e | Inr s \<Rightarrow> Inr (take 10 s))"

text \<open>
  \<open>chooseLargestTimeRange\<close> ranks the ranges by a duration in seconds; the trading
  multipliers 3, 1.5 and 1.3 are exact rationals here.
\<close>

fun mapTimeUnitToSeconds :: "TimeUnit \<Rightarrow> bool \<Rightarrow> rat" where
  "mapTimeUnitToSeconds Second trading = 1"
| "mapTimeUnitToSeconds Minute trading = 60"
| "mapTimeUnitToSeconds Hour trading = 3600 * (if trading then 3 else 1)"
| "mapTimeUnitToSeconds Day trading = 86400 * (if trading then 3 / 2 else 1)"
| "mapTimeUnitToSeconds Week trading = 604800 * (if trading then 13 / 10 else 1)"
| "mapTimeUnitToSeconds Month trading = 2592000"
| "mapTimeUnitToSeconds Year trading = 31536000"

definition rangeDuration :: "TimeRange \<Rightarrow> rat" where
  "rangeDuration r =
     (case r of
        RelativeTimeRange duration unit \<Rightarrow> of_int duration * mapTimeUnitToSeconds unit False
      | TradingTimeRange duration unit \<Rightarrow> of_int duration * mapTimeUnitToSeconds unit True
      | AbsoluteTimeRange from to \<Rightarrow> of_int (to - from))"

fun chooseLargestLoop :: "TimeRange list \<Rightarrow> TimeRange option \<Rightarrow> rat \<Rightarrow> TimeRange option" where
  "chooseLargestLoop [] largestRange largestDuration = largestRange"
| "chooseLargestLoop (r # rs) largestRange largestDuration =
     (if rangeDuration r > largestDuration then chooseLargestLoop rs (Some r) (rangeDuration r)
      else chooseLargestLoop rs largestRange largestDuration)"

definition chooseLargestTimeRange :: "TimeRange list \<Rightarrow> TimeRange option" where
  "chooseLargestTimeRange timeRanges = chooseLargestLoop timeRanges None 0"

fun unitUpperCase :: "TimeUnit \<Rightarrow> string" where
  "unitUpperCase Second = ''SECOND''"
| "unitUpperCase Minute = ''MINUTE''"
| "unitUpperCase Hour = ''HOUR''"
| "unitUpperCase Day = ''DAY''"
| "unitUpperCase Week = ''WEEK''"
| "unitUpperCase Month = ''MONTH''"
| "unitUpperCase Year = ''YEAR''"

definition optString :: "string option \<Rightarrow> string" where
  "optString s = (case s of None \<Rightarrow> ''undefined'' | Some x \<Rightarrow> x)"

text \<open>
  The helper \<open>addLargestTimeRangeFilter\<close> of \<open>generateCTESQL\<close>: the PREWHERE predicates it
  pushes for the source configurations \<open>srcCfgs\<close> of the group and the time ranges of the
  graph.  The absolute branch computes \<open>new Date(ltr.from * 1000 - 86400)\<close>.
\<close>

definition addLargestTimeRangeFilter :: "TableConfig list \<Rightarrow> TimeRange list \<Rightarrow> error + string list" where
  "addLargestTimeRangeFilter srcCfgs timeRanges =
     (case srcCfgs of
        [] \<Rightarrow> Inr []
      | cfg # rest \<Rightarrow>
          (case chooseLargestTimeRange timeRanges of
             None \<Rightarrow> Inr []
           | Some ltr \<Rightarrow>
               (let tc = tableName cfg @ ''.'' @ optString (timeColumn cfg) in
                case ltr of
                  RelativeTimeRange duration unit \<Rightarrow>
                    Inr [tc @ '' >= toDate(date_sub(now(), INTERVAL '' @ numberToString duration @
                         '' '' @ unitUpperCase unit @ ''))'']
                | AbsoluteTimeRange from to \<Rightarrow>
                    (case isoDate (from * 1000 - 86400) of
                       Inl e \<Rightarrow> Inl e
                     | Inr fromDate \<Rightarrow>
                         (case isoDate (to * 1000) of
                            Inl e \<Rightarrow> Inl e
                          | Inr toDate \<Rightarrow>
                              Inr [tc @ '' BETWEEN toDate('' @ [CHR 0x27] @ fromDate @ [CHR 0x27] @
                                   '') AND toDate('' @ [CHR 0x27] @ toDate @ [CHR 0x27] @ '')'']))
                | TradingTimeRange duration unit \<Rightarrow> Inr [])))"

text \<open>The table \<open>daily_agg\<close> of the default configuration, as the specification gives it.\<close>

definition dailyAgg :: TableConfig where
  "dailyAgg = \<lparr> tableName = ''daily_agg'', timeColumn = Some ''date'', primaryKeys = [''ticker''],
                 alwaysIncludeColumns = Some [''ticker'', ''date''] \<rparr>"

section \<open>SQL emission: assembling the clauses\<close>

text \<open>\<open>parts.join(sep)\<close> and \<open>[...new Set(xs)]\<close> (the first occurrence of each element stays).\<close>

fun joinWith :: "string \<Rightarrow> string list \<Rightarrow> string" where
  "joinWith sep [] = []"
| "joinWith sep [x] = x"
| "joinWith sep (x # y # ys) = x @ sep @ joinWith sep (y # ys)"

definition unique :: "'a list \<Rightarrow> 'a list" where
  "unique xs = foldl (\<lambda>acc x. if x \<in> set acc then acc else acc @ [x]) [] xs"

definition newline :: string where
  "newline = [CHR 0x0A]"

text \<open>
  The end of \<open>generateCTESQL\<close> (from \<open>cols = Array.from(new Set(cols))\<close> on): the body of a CTE
  from the clause lists collected for the group.
\<close>

definition assembleCTE ::
  "string list \<Rightarrow> string \<Rightarrow> string list \<Rightarrow> string list \<Rightarrow> string list \<Rightarrow> string list \<Rightarrow>
     string list \<Rightarrow> string \<Rightarrow> string" where
  "assembleCTE cols fromStmt preWhere qualify whereList groupBy orderBy limitClause =
     (let sql0 = ''SELECT '' @ joinWith '', '' (unique cols) @ newline @ fromStmt;
          sql1 = (if preWhere \<noteq> [] then sql0 @ newline @ ''PREWHERE '' @ joinWith '' AND '' preWhere
                  else sql0);
          sql2 = (if qualify \<noteq> [] then sql1 @ newline @ ''QUALIFY '' @ joinWith '' AND '' qualify
                  else sql1);
          sql3 = (if whereList \<noteq> [] then sql2 @ newline @ ''WHERE '' @ joinWith '' AND '' whereList
                  else sql2);
          sql4 = (if unique groupBy \<noteq> [] then sql3 @ newline @ ''GROUP BY '' @ joinWith '', '' (unique groupBy)
                  else sql3);
          sql5 = (if orderBy \<noteq> [] then sql4 @ newline @ ''ORDER BY '' @ joinWith '', '' orderBy
                  else sql4)
      in if limitClause \<noteq> [] then sql5 @ newline @ limitClause else sql5)"

text \<open>The fields of \<open>QueryBuilder\<close> that \<open>assembleSQL\<close> reads, and \<open>assembleSQL\<close>.\<close>

record QueryBuilder =
  sql :: string
  cols :: "string list"
  fromStmt :: string
  preFilters :: "string list"
  filters :: "string list"
  qualify :: "string list"
  groupBy :: "string list"
  orderBy :: "string list"
  limitSql :: string

definition assembleSQL :: "QueryBuilder \<Rightarrow> string" where
  "assembleSQL qb =
     sql qb @ joinWith newline
       ([''SELECT '' @ joinWith '', '' (cols qb)] @ [fromStmt qb] @
        (if preFilters qb \<noteq> [] then [''PREWHERE '' @ joinWith '' AND '' (preFilters qb)] else []) @
        (if filters qb \<noteq> [] then [''WHERE '' @ joinWith '' AND '' (filters qb)] else []) @
        (if qualify qb \<noteq> [] then [''QUALIFY '' @ joinWith '' AND '' (qualify qb)] else []) @
        (if groupBy qb \<noteq> [] then [''GROUP BY '' @ joinWith '', '' (unique (groupBy qb))] else []) @
        (if orderBy qb \<noteq> [] then [''ORDER BY '' @ joinWith '', '' (orderBy qb)] else []) @
        (if limitSql qb \<noteq> [] then [limitSql qb] else []))"

section \<open>SQL emission: translateFilter\<close>

text \<open>
  \<open>translateFilter(filter, ctx, ignoreIds, winAliases)\<close>.  The recursion follows the inputs of
  composite-filter nodes through \<open>ctx.nodes\<close>; its depth is bounded by the call stack, which is
  the first argument here: when it is used up the call ends in a \<open>RangeError\<close>.  The translation
  of a simple filter (the code after the composite branch, from \<open>const cond = filter.condition\<close>
  on) is the parameter \<open>simple\<close>: it reads the condition, the nodes and the window aliases, and
  a node without a condition makes it fail with a \<open>TypeError\<close>.  A child id that is not in
  \<open>ctx.nodes\<close> gives \<open>undefined\<close>, whose \<open>type\<close> cannot be read.
\<close>

definition toUpperCase :: "string \<Rightarrow> string" where
  "toUpperCase s =
     map (\<lambda>c. if CHR ''a'' \<le> c \<and> c \<le> CHR ''z'' then char_of (of_char c - (32::nat)) else c) s"

text \<open>
  The loop over the children: an exception of a child ends the loop; a child with empty SQL is
  skipped; \<open>anyWindow\<close> collects the flags of the children that are kept.
\<close>

fun collectParts :: "(error + string \<times> bool) list \<Rightarrow> error + (string list \<times> bool)" where
  "collectParts [] = Inr ([], False)"
| "collectParts (Inl e # rs) = Inl e"
| "collectParts (Inr (childSql, childWin) # rs) =
     (case collectParts rs of
        Inl e \<Rightarrow> Inl e
      | Inr (parts, anyWindow) \<Rightarrow>
          if childSql = [] then Inr (parts, anyWindow)
          else Inr (childSql # parts, childWin \<or> anyWindow))"

fun translateFilter ::
  "nat \<Rightarrow> (Condition \<Rightarrow> error + string \<times> bool) \<Rightarrow> Nodes \<Rightarrow> NodeID list \<Rightarrow> ComputeNode option \<Rightarrow>
     error + string \<times> bool" where
  "translateFilter 0 simple ns ignoreIds node = Inl RangeError"
| "translateFilter (Suc depth) simple ns ignoreIds None = Inl TypeError"
| "translateFilter (Suc depth) simple ns ignoreIds (Some node) =
     (case body node of
        CompositeFilterNode operator \<Rightarrow>
          (let childIds = filter (\<lambda>cid. cid \<notin> set ignoreIds) (inputs node) in
           case collectParts
                  (map (\<lambda>cid. translateFilter depth simple ns ignoreIds (lookup ns cid)) childIds) of
             Inl e \<Rightarrow> Inl e
           | Inr (parts, anyWindow) \<Rightarrow>
               if parts = [] then Inr ([], False)
               else if operator = ''not'' then Inr (''NOT ('' @ hd parts @ '')'', anyWindow)
               else Inr (''('' @ joinWith ('' '' @ toUpperCase operator @ '' '') parts @ '')'',
                         anyWindow))
      | FilterNode cond \<Rightarrow> simple cond
      | _ \<Rightarrow> Inl TypeError)"

text \<open>
  Vocabulary of the claim on \<open>not\<close>: the SQL of a child (empty when the child fails), and
  whether every child is translated without an exception.
\<close>

definition returns :: "error + 'a \<Rightarrow> bool" where
  "returns r = (case r of Inl e \<Rightarrow> False | Inr x \<Rightarrow> True)"

definition resultSql :: "error + string \<times> bool \<Rightarrow> string" where
  "resultSql r = (case r of Inl e \<Rightarrow> [] | Inr (s, w) \<Rightarrow> s)"

definition childSql ::
  "nat \<Rightarrow> (Condition \<Rightarrow> error + string \<times> bool) \<Rightarrow> Nodes \<Rightarrow> NodeID list \<Rightarrow> NodeID \<Rightarrow> string" where
  "childSql depth simple ns ignoreIds cid =
     (case translateFilter depth simple ns ignoreIds (lookup ns cid) of
        Inl e \<Rightarrow> []
      | Inr (s, w) \<Rightarrow> s)"

definition childrenTranslate ::
  "nat \<Rightarrow> (Condition \<Rightarrow> error + string \<times> bool) \<Rightarrow> Nodes \<Rightarrow> NodeID list \<Rightarrow> NodeID list \<Rightarrow> bool" where
  "childrenTranslate depth simple ns ignoreIds cids =
     list_all (\<lambda>cid. returns (translateFilter depth simple ns ignoreIds (lookup ns cid))) cids"

text \<open>
  The input schema of a filter (\<open>filterSchema\<close> with \<open>expressionSchema\<close>): the operator of a
  composite is \<open>and\<close>, \<open>or\<close> or \<open>not\<close> and its list of filters has at least one element; no
  upper bound on the number of children depends on the operator.
\<close>

definition filterOperators :: "string list" where
  "filterOperators = [''eq'', ''neq'', ''gt'', ''gte'', ''lt'', ''lte'', ''in'', ''nin'',
                      ''contains'', ''ncontains'']"

definition mathOperators :: "string list" where
  "mathOperators = [''+'', ''-'', ''*'', ''/'', ''^'', ''%'', ''sqrt'', ''abs'', ''ln'', ''log10'',
                    ''>'', ''>='', ''<'', ''<='', ''=='', ''!='']"

definition aggregationTypes :: "string list" where
  "aggregationTypes = [''first'', ''last'', ''min'', ''max'', ''median'', ''percentile'', ''avg'',
                       ''sum'', ''stddev'', ''count'', ''variance'', ''diff'', ''diff_pct'', ''ema'']"

definition aliasSchema :: "string option \<Rightarrow> bool" where
  "aliasSchema a = (case a of None \<Rightarrow> True | Some s \<Rightarrow> s \<noteq> [])"

definition timeRangeSchema :: "TimeRange option \<Rightarrow> bool" where
  "timeRangeSchema r =
     (case r of
        None \<Rightarrow> True
      | Some (AbsoluteTimeRange from to) \<Rightarrow> True
      | Some (RelativeTimeRange duration unit) \<Rightarrow> duration > 0
      | Some (TradingTimeRange duration unit) \<Rightarrow> duration > 0)"

definition arraySchema :: "int Scalar list \<Rightarrow> bool" where
  "arraySchema xs =
     (list_all (\<lambda>x. typeof x = TypeString) xs \<or> list_all (\<lambda>x. typeof x = TypeNumber) xs)"

fun expressionSchema :: "Expression \<Rightarrow> bool"
  and filterSchema :: "Filter \<Rightarrow> bool"
where
  "expressionSchema (ConstantExpression v a) =
     ((case v of VArray xs \<Rightarrow> arraySchema xs | _ \<Rightarrow> True) \<and> aliasSchema a)"
| "expressionSchema (MetricExpression m f a) =
     (m \<noteq> [] \<and> aliasSchema a \<and> (case f of None \<Rightarrow> True | Some g \<Rightarrow> filterSchema g))"
| "expressionSchema (MathExpression operator operands a) =
     (operator \<in> set mathOperators \<and> operands \<noteq> [] \<and> list_all expressionSchema operands \<and>
      aliasSchema a)"
| "expressionSchema (AggregateExpression t aggregation r f a) =
     ((case t of ConstantExpression v b \<Rightarrow> False | _ \<Rightarrow> expressionSchema t) \<and>
      aggregation \<in> set aggregationTypes \<and> timeRangeSchema r \<and>
      (case f of None \<Rightarrow> True | Some g \<Rightarrow> filterSchema g) \<and> aliasSchema a)"
| "filterSchema (SimpleFilter t operator v) =
     (expressionSchema t \<and> operator \<in> set filterOperators \<and> expressionSchema v)"
| "filterSchema (CompositeFilter operator fs) =
     (operator \<in> set [''and'', ''or'', ''not''] \<and> fs \<noteq> [] \<and> list_all filterSchema fs)"

text \<open>\<open>mapFilterOperatorToSQL\<close>.\<close>

definition mapFilterOperatorToSQL :: "string \<Rightarrow> string" where
  "mapFilterOperatorToSQL operator =
     (if operator = ''eq'' then ''=''
      else if operator = ''neq'' then ''!=''
      else if operator = ''gt'' then ''>''
      else if operator = ''gte'' then ''>=''
      else if operator = ''lt'' then ''<''
      else if operator = ''lte'' then ''<=''
      else if operator = ''in'' then ''IN''
      else if operator = ''nin'' then ''NOT IN''
      else if operator = ''contains'' then ''LIKE''
      else if operator = ''ncontains'' then ''NOT LIKE''
      else operator)"

text \<open>
  An instance of the parameter \<open>simple\<close> for the examples: a side that names an input is
  printed by its metric, a parameter by its placeholder.
\<close>

definition sideTextExample :: "Side \<Rightarrow> string" where
  "sideTextExample side =
     (case side of
        InputSide i m \<Rightarrow> m
      | ParameterSide p \<Rightarrow> p
      | ExpressionSide e \<Rightarrow> ''expr'')"

definition simpleExample :: "Condition \<Rightarrow> error + string \<times> bool" where
  "simpleExample cond =
     Inr (sideTextExample (left cond) @ '' '' @ mapFilterOperatorToSQL (op cond) @ '' '' @
          sideTextExample (right cond), False)"

definition notFilterExample :: Filter where
  "notFilterExample =
     CompositeFilter ''not''
       [SimpleFilter (MetricExpression ''sector'' None None) ''eq''
          (ConstantExpression (VString ''Technology'') None),
        SimpleFilter (MetricExpression ''country'' None None) ''eq''
          (ConstantExpression (VString ''United States'') None)]"

definition notNodeExample :: ComputeNode where
  "notNodeExample =
     \<lparr> nodeId = ''composite_filter_1'', inputs = [''filter_1'', ''filter_2''], isTerminal = True,
       metadata = None, body = CompositeFilterNode ''not'' \<rparr>"

definition notGraphExample :: Nodes where
  "notGraphExample =
     [\<lparr> nodeId = ''source_1'', inputs = [], isTerminal = False, metadata = None,
         body = Source ''tickers'' None \<rparr>,
      \<lparr> nodeId = ''projection_1'', inputs = [''source_1''], isTerminal = False, metadata = None,
         body = Projection [NameColumn ''sector'' None (Some ''source_1'')] \<rparr>,
      \<lparr> nodeId = ''filter_1'', inputs = [''projection_1''], isTerminal = False,
         metadata = Some (emptyMetadata\<lparr>hasParameter := True\<rparr>),
         body = FilterNode \<lparr> left = InputSide ''projection_1'' ''sector'',
                              right = ParameterSide ''{param_1: String}'', op = ''eq'' \<rparr> \<rparr>,
      \<lparr> nodeId = ''projection_2'', inputs = [''source_1''], isTerminal = False, metadata = None,
         body = Projection [NameColumn ''country'' None (Some ''source_1'')] \<rparr>,
      \<lparr> nodeId = ''filter_2'', inputs = [''projection_2''], isTerminal = False,
         metadata = Some (emptyMetadata\<lparr>hasParameter := True\<rparr>),
         body = FilterNode \<lparr> left = InputSide ''projection_2'' ''country'',
                              right = ParameterSide ''{param_2: String}'', op = ''eq'' \<rparr> \<rparr>,
      notNodeExample]"

section \<open>The compute graph: state, addNode, node ids\<close>

text \<open>
  \<open>QueryBuilderConfig\<close>: \<open>tables\<close> and \<open>columnMappings\<close> are objects, here association lists
  read with \<open>map_of\<close>.  The default configuration is an import of the compiler; the model takes
  the configuration as an argument, as the constructor of \<open>ComputeGraph\<close> does.
\<close>

record ColumnConfig =
  table :: string
  column :: string

record QueryBuilderConfig =
  tables :: "(string \<times> TableConfig) list"
  columnMappings :: "(string \<times> ColumnConfig) list"

datatype NodeType =
    TSource | TFilter | TCompositeFilter | TProjection | TAggregation | TExpression
  | TSort | TLimit | TJoin | TAggregate

text \<open>The mutable fields of a \<open>ComputeGraph\<close> object.\<close>

record ComputeGraph =
  nodes :: Nodes
  nodeTypesCounter :: "NodeType \<Rightarrow> nat"
  parameters :: "int Parameters"

definition emptyGraph :: ComputeGraph where
  "emptyGraph = \<lparr> nodes = [], nodeTypesCounter = (\<lambda>t. 0), parameters = [] \<rparr>"

text \<open>\<open>type.replace('-', '_')\<close> for each node type.\<close>

fun typeName :: "NodeType \<Rightarrow> string" where
  "typeName TSource = ''source''"
| "typeName TFilter = ''filter''"
| "typeName TCompositeFilter = ''composite_filter''"
| "typeName TProjection = ''projection''"
| "typeName TAggregation = ''aggregation''"
| "typeName TExpression = ''expression''"
| "typeName TSort = ''sort''"
| "typeName TLimit = ''limit''"
| "typeName TJoin = ''join''"
| "typeName TAggregate = ''aggregate''"

text \<open>\<open>generateNodeID(type)\<close> with a type: the id and the graph with the counter advanced.\<close>

definition generateNodeID :: "NodeType \<Rightarrow> ComputeGraph \<Rightarrow> NodeID \<times> ComputeGraph" where
  "generateNodeID t g =
     (let count = nodeTypesCounter g t + 1
      in (typeName t @ ''_'' @ showNat count,
          g\<lparr>nodeTypesCounter := (nodeTypesCounter g)(t := nodeTypesCounter g t + 1)\<rparr>))"

text \<open>
  \<open>addNode(node)\<close> on the node table: the node is stored, every input that is in the table
  becomes non-terminal, and the node itself becomes terminal.
\<close>

definition markNonTerminal :: "NodeID \<Rightarrow> Nodes \<Rightarrow> Nodes" where
  "markNonTerminal inputId ns =
     (case lookup ns inputId of
        None \<Rightarrow> ns
      | Some inputNode \<Rightarrow> store (inputNode\<lparr>isTerminal := False\<rparr>) ns)"

definition addNode :: "ComputeNode \<Rightarrow> Nodes \<Rightarrow> Nodes" where
  "addNode node ns =
     store (node\<lparr>isTerminal := True\<rparr>) (fold markNonTerminal (inputs node) (store node ns))"

text \<open>A new node with a generated id, as in \<open>this.addNode({id: this.generateNodeID(t), ...})\<close>.\<close>

definition addNewNode ::
  "NodeType \<Rightarrow> NodeID list \<Rightarrow> NodeMetadata option \<Rightarrow> NodeBody \<Rightarrow> ComputeGraph \<Rightarrow> NodeID \<times> ComputeGraph" where
  "addNewNode t ins md b g =
     (case generateNodeID t g of
        (newId, g1) \<Rightarrow>
          (newId,
           g1\<lparr>nodes := addNode \<lparr> nodeId = newId, inputs = ins, isTerminal = False,
                                   metadata = md, body = b \<rparr> (nodes g1)\<rparr>))"

text \<open>\<open>findDependentNodes(nodeId)\<close> and \<open>replaceNodeID(oldId, newId, oldAlias?)\<close>.\<close>

definition findDependentNodes :: "Nodes \<Rightarrow> NodeID \<Rightarrow> ComputeNode list" where
  "findDependentNodes ns k = filter (\<lambda>n. k \<in> set (inputs n)) ns"

definition replaceSide :: "NodeID \<Rightarrow> NodeID \<Rightarrow> string option \<Rightarrow> Side \<Rightarrow> Side" where
  "replaceSide oldId newId oldAlias side =
     (case side of
        InputSide i m \<Rightarrow>
          if i = oldId then InputSide newId (case oldAlias of None \<Rightarrow> m | Some a \<Rightarrow> a) else side
      | _ \<Rightarrow> side)"

definition replaceColumn :: "NodeID \<Rightarrow> NodeID \<Rightarrow> Column \<Rightarrow> Column" where
  "replaceColumn oldId newId col =
     (case col of
        NameColumn n a s \<Rightarrow> NameColumn n a (if s = Some oldId then Some newId else s)
      | ExpressionColumn e a s \<Rightarrow> ExpressionColumn e a (if s = Some oldId then Some newId else s))"

definition replaceBody :: "NodeID \<Rightarrow> NodeID \<Rightarrow> string option \<Rightarrow> NodeBody \<Rightarrow> NodeBody" where
  "replaceBody oldId newId oldAlias b =
     (case b of
        FilterNode cond \<Rightarrow>
          FilterNode \<lparr> left = replaceSide oldId newId oldAlias (left cond),
                       right = replaceSide oldId newId oldAlias (right cond),
                       op = op cond \<rparr>
      | Sort criteria \<Rightarrow>
          Sort (map (\<lambda>crit. if expression crit = oldId then crit\<lparr>expression := newId\<rparr> else crit)
                  criteria)
      | Projection columns \<Rightarrow> Projection (map (replaceColumn oldId newId) columns)
      | _ \<Rightarrow> b)"

definition replaceNodeID :: "NodeID \<Rightarrow> NodeID \<Rightarrow> string option \<Rightarrow> Nodes \<Rightarrow> Nodes" where
  "replaceNodeID oldId newId oldAlias ns =
     map (\<lambda>node. if nodeId node = newId then node
                  else node\<lparr>inputs := map (\<lambda>i. if i = oldId then newId else i) (inputs node),
                            body := replaceBody oldId newId oldAlias (body node)\<rparr>) ns"

section \<open>Optimizer: inlineParameters\<close>

text \<open>
  \<open>inlineParameters\<close>.  For each expression node of the snapshot that is marked
  \<open>isParameter\<close>, every dependent with a \<open>condition\<close> (a filter node) or with \<open>criteria\<close> (a sort
  node) is rewritten, and the parameter node is removed.  \<open>constantValue\<close> is
  \<open>constantNode.value\<close>: the builder always stores a string there; another constant is
  printed as a template literal would print it.
\<close>

definition isExpressionNode :: "ComputeNode \<Rightarrow> bool" where
  "isExpressionNode n = (case body n of ExpressionNode e a \<Rightarrow> True | _ \<Rightarrow> False)"

definition metaFlag :: "(NodeMetadata \<Rightarrow> bool) \<Rightarrow> ComputeNode \<Rightarrow> bool" where
  "metaFlag flag n = (case metadata n of None \<Rightarrow> False | Some m \<Rightarrow> flag m)"

definition scalarText :: "int Scalar \<Rightarrow> string" where
  "scalarText x = (case x of Str s \<Rightarrow> s | Num n \<Rightarrow> numberToString n
                   | Boolean b \<Rightarrow> if b then ''true'' else ''false'')"

definition constantValue :: "NodeBody \<Rightarrow> string" where
  "constantValue b =
     (case b of
        ExpressionNode (ConstantExpression v a) al \<Rightarrow>
          (case v of
             VString s \<Rightarrow> s
           | VNumber n \<Rightarrow> numberToString n
           | VBoolean t \<Rightarrow> if t then ''true'' else ''false''
           | VArray xs \<Rightarrow> joinWith '','' (map scalarText xs))
      | _ \<Rightarrow> ''undefined'')"

definition withHasParameter :: "NodeMetadata option \<Rightarrow> NodeMetadata option" where
  "withHasParameter md =
     Some ((case md of None \<Rightarrow> emptyMetadata | Some m \<Rightarrow> m)\<lparr>hasParameter := True\<rparr>)"

definition inlineDependent :: "NodeID \<Rightarrow> string \<Rightarrow> ComputeNode \<Rightarrow> ComputeNode" where
  "inlineDependent paramId v dep =
     (case body dep of
        FilterNode cond \<Rightarrow>
          (let left0 = left cond;
               right0 = right cond;
               left1 = (case left0 of
                          InputSide i m \<Rightarrow> if i = paramId then ParameterSide v else left0
                        | _ \<Rightarrow> left0);
               right1 = (case right0 of
                           InputSide i m \<Rightarrow> if i = paramId then ParameterSide v else left1
                         | _ \<Rightarrow> right0)
           in dep\<lparr>body := FilterNode \<lparr> left = left1, right = right1, op = op cond \<rparr>,
                         metadata := withHasParameter (metadata dep),
                         inputs := filter (\<lambda>i. i \<noteq> paramId) (inputs dep)\<rparr>)
      | Sort criteria \<Rightarrow>
          dep\<lparr>body := Sort (map (\<lambda>crit. if expression crit = paramId
                                                then crit\<lparr>expression := v\<rparr> else crit) criteria),
                    metadata := withHasParameter (metadata dep),
                    inputs := filter (\<lambda>i. i \<noteq> paramId) (inputs dep)\<rparr>
      | _ \<Rightarrow> dep)"

definition inlineParameter :: "NodeID \<Rightarrow> Nodes \<Rightarrow> Nodes" where
  "inlineParameter k ns =
     (case lookup ns k of
        None \<Rightarrow> ns
      | Some node \<Rightarrow>
          if \<not> metaFlag isParameter node then ns
          else removeNode k
                 (map (\<lambda>n. if k \<in> set (inputs n) then inlineDependent k (constantValue (body node)) n
                            else n) ns))"

definition inlineParameters :: "Nodes \<Rightarrow> Nodes" where
  "inlineParameters ns = fold inlineParameter (map nodeId (filter isExpressionNode ns)) ns"

section \<open>IR builder\<close>

text \<open>\<open>generateAlias(expr)\<close> with \<open>timeRangeToAlias\<close>; \<open>truthy\<close> is the truth value of an optional string.\<close>

definition truthy :: "string option \<Rightarrow> bool" where
  "truthy a = (case a of None \<Rightarrow> False | Some s \<Rightarrow> s \<noteq> [])"

definition orElse :: "string option \<Rightarrow> string \<Rightarrow> string" where
  "orElse a d = (case a of None \<Rightarrow> d | Some s \<Rightarrow> if s = [] then d else s)"

fun unitName :: "TimeUnit \<Rightarrow> string" where
  "unitName Second = ''second''"
| "unitName Minute = ''minute''"
| "unitName Hour = ''hour''"
| "unitName Day = ''day''"
| "unitName Week = ''week''"
| "unitName Month = ''month''"
| "unitName Year = ''year''"

definition timeRangeToAlias :: "TimeRange \<Rightarrow> error + string" where
  "timeRangeToAlias tr =
     (case tr of
        RelativeTimeRange duration unit \<Rightarrow> Inr (numberToString duration @ unitName unit)
      | TradingTimeRange duration unit \<Rightarrow> Inr (numberToString duration @ unitName unit)
      | AbsoluteTimeRange from to \<Rightarrow>
          (case isoDatePart (from * 1000) of
             Inl e \<Rightarrow> Inl e
           | Inr f \<Rightarrow>
               (case isoDatePart (to * 1000) of
                  Inl e \<Rightarrow> Inl e
                | Inr t \<Rightarrow> Inr (filter (\<lambda>c. c \<noteq> CHR ''-'') f @ ''_'' @ filter (\<lambda>c. c \<noteq> CHR ''-'') t))))"

fun generateAlias :: "Expression \<Rightarrow> error + string"
  and generateAliases :: "Expression list \<Rightarrow> error + string list"
where
  "generateAlias (ConstantExpression v a) = Inr (orElse a ''constant'')"
| "generateAlias (MetricExpression m f a) = Inr (orElse a m)"
| "generateAlias (AggregateExpression t aggregation r f a) =
     (if truthy a then Inr (orElse a [])
      else (case generateAlias t of
              Inl e \<Rightarrow> Inl e
            | Inr ta \<Rightarrow>
                (case r of
                   None \<Rightarrow> Inr (aggregation @ ''_'' @ ta)
                 | Some tr \<Rightarrow>
                     (case timeRangeToAlias tr of
                        Inl e \<Rightarrow> Inl e
                      | Inr ra \<Rightarrow> Inr (aggregation @ ''_'' @ ta @ ''_'' @ ra)))))"
| "generateAlias (MathExpression operator operands a) =
     (if truthy a then Inr (orElse a [])
      else (case generateAliases operands of
              Inl e \<Rightarrow> Inl e
            | Inr as \<Rightarrow> Inr (take 65 (operator @ ''_'' @ joinWith ''_'' as))))"
| "generateAliases [] = Inr []"
| "generateAliases (x # xs) =
     (case generateAlias x of
        Inl e \<Rightarrow> Inl e
      | Inr a \<Rightarrow> (case generateAliases xs of Inl e \<Rightarrow> Inl e | Inr as \<Rightarrow> Inr (a # as)))"

text \<open>\<open>findOrCreateSourceNode(table)\<close>.\<close>

definition isSourceOf :: "string \<Rightarrow> ComputeNode \<Rightarrow> bool" where
  "isSourceOf t n = (case body n of Source t' c \<Rightarrow> t' = t | _ \<Rightarrow> False)"

definition findOrCreateSourceNode ::
  "QueryBuilderConfig \<Rightarrow> string \<Rightarrow> ComputeGraph \<Rightarrow> NodeID \<times> ComputeGraph" where
  "findOrCreateSourceNode cfg t g =
     (case find (isSourceOf t) (nodes g) of
        Some existingNode \<Rightarrow> (nodeId existingNode, g)
      | None \<Rightarrow>
          addNewNode TSource [] None
            (Source t (case map_of (tables cfg) t of None \<Rightarrow> None | Some tc \<Rightarrow> timeColumn tc)) g)"

text \<open>
  The parts of \<open>processExpression\<close> and \<open>processFilter\<close> that add nodes.  \<open>metricNodes\<close> is the
  metric case up to the projection; \<open>constantNode\<close> is the constant case (\<open>createParameter\<close> is
  called without an operator); \<open>aggregateNode\<close> and \<open>simpleFilterNode\<close> add the node once the
  parts have been processed.
\<close>

type_synonym 'a Build = "error + ('a \<times> ComputeGraph)"

definition metricNodes ::
  "QueryBuilderConfig \<Rightarrow> string \<Rightarrow> string option \<Rightarrow> ComputeGraph \<Rightarrow> NodeID Build" where
  "metricNodes cfg m a g =
     (case map_of (columnMappings cfg) m of
        None \<Rightarrow> Inl (MetricNotFound m)
      | Some col \<Rightarrow>
          (case findOrCreateSourceNode cfg (table col) g of
             (sourceNodeId, g1) \<Rightarrow>
               Inr (addNewNode TProjection [sourceNodeId] None
                      (Projection
                         [NameColumn (column col)
                            (if truthy a then a else if m \<noteq> column col then Some m else None)
                            (Some sourceNodeId)]) g1)))"

definition constantNode ::
  "int ParameterValue \<Rightarrow> string option \<Rightarrow> ComputeGraph \<Rightarrow> NodeID Build" where
  "constantNode v a g =
     (case createParameter numberToString v None (parameters g) of
        Inl e \<Rightarrow> Inl e
      | Inr (paramValue, ps) \<Rightarrow>
          Inr (addNewNode TExpression [] (Some (emptyMetadata\<lparr>isParameter := True\<rparr>))
                 (ExpressionNode (ConstantExpression (VString paramValue) None) a)
                 (g\<lparr>parameters := ps\<rparr>)))"

definition aggregateNode ::
  "NodeID list \<Rightarrow> Expression \<Rightarrow> string option \<Rightarrow> ComputeGraph \<Rightarrow> (NodeID \<times> Expression) Build" where
  "aggregateNode ins expr a g =
     (case generateAlias expr of
        Inl e \<Rightarrow> Inl e
      | Inr generated \<Rightarrow>
          (case addNewNode TAggregation ins None
                  (ExpressionNode expr (Some (orElse a generated))) g of
             (k, g1) \<Rightarrow> Inr ((k, expr), g1)))"

definition getMetricName :: "ComputeNode \<Rightarrow> string" where
  "getMetricName node =
     (case body node of
        Projection columns \<Rightarrow>
          (case columns of
             [] \<Rightarrow> nodeId node
           | col # rest \<Rightarrow>
               (case col of
                  NameColumn n a s \<Rightarrow> orElse a n
                | ExpressionColumn e a s \<Rightarrow> orElse a []))
      | _ \<Rightarrow> nodeId node)"

definition withOtherInputs :: "NodeID list \<Rightarrow> NodeID list option \<Rightarrow> NodeID list" where
  "withOtherInputs ins otherInputs =
     (case otherInputs of None \<Rightarrow> ins | Some others \<Rightarrow> unique (ins @ others))"

definition simpleFilterNode ::
  "NodeID \<Rightarrow> NodeID \<Rightarrow> string \<Rightarrow> NodeID list option \<Rightarrow> ComputeGraph \<Rightarrow> NodeID Build" where
  "simpleFilterNode targetNodeId valueNodeId operator otherInputs g =
     (case lookup (nodes g) targetNodeId of
        None \<Rightarrow> Inl TypeError
      | Some targetNode \<Rightarrow>
          Inr (addNewNode TFilter (withOtherInputs [targetNodeId, valueNodeId] otherInputs) None
                 (FilterNode \<lparr> left = InputSide targetNodeId (getMetricName targetNode),
                               right = InputSide valueNodeId valueNodeId,
                               op = operator \<rparr>) g))"

text \<open>
  \<open>processExpression\<close> and \<open>processFilter\<close>.  Each returns the id of the node it adds and the
  expression (or filter) as the call leaves it: the aggregate case deletes the filter of the
  expression object after lowering it, and the node of an aggregate or math expression holds
  that object.  \<open>processOperands\<close> and \<open>processFilters\<close> are the \<open>map\<close> calls over operands and
  child filters.
\<close>

fun processExpression ::
    "QueryBuilderConfig \<Rightarrow> Expression \<Rightarrow> ComputeGraph \<Rightarrow> (NodeID \<times> Expression) Build"
  and processFilter ::
    "QueryBuilderConfig \<Rightarrow> Filter \<Rightarrow> NodeID list option \<Rightarrow> ComputeGraph \<Rightarrow> (NodeID \<times> Filter) Build"
  and processOperands ::
    "QueryBuilderConfig \<Rightarrow> Expression list \<Rightarrow> ComputeGraph \<Rightarrow> (NodeID list \<times> Expression list) Build"
  and processFilters ::
    "QueryBuilderConfig \<Rightarrow> Filter list \<Rightarrow> ComputeGraph \<Rightarrow> (NodeID list \<times> Filter list) Build"
where
  "processExpression cfg (MetricExpression m None a) g =
     (case metricNodes cfg m a g of
        Inl e \<Rightarrow> Inl e
      | Inr (created, g1) \<Rightarrow> Inr ((created, MetricExpression m None a), g1))"
| "processExpression cfg (MetricExpression m (Some f) a) g =
     (case metricNodes cfg m a g of
        Inl e \<Rightarrow> Inl e
      | Inr (created, g1) \<Rightarrow>
          (case processFilter cfg f (Some [created]) g1 of
             Inl e \<Rightarrow> Inl e
           | Inr ((filterNodeId, f'), g2) \<Rightarrow> Inr ((created, MetricExpression m (Some f') a), g2)))"
| "processExpression cfg (ConstantExpression v a) g =
     (case constantNode v a g of
        Inl e \<Rightarrow> Inl e
      | Inr (k, g1) \<Rightarrow> Inr ((k, ConstantExpression v a), g1))"
| "processExpression cfg (AggregateExpression t aggregation r None a) g =
     (case processExpression cfg t g of
        Inl e \<Rightarrow> Inl e
      | Inr ((targetNodeId, t'), g1) \<Rightarrow>
          aggregateNode [targetNodeId] (AggregateExpression t' aggregation r None a) a g1)"
| "processExpression cfg (AggregateExpression t aggregation r (Some f) a) g =
     (case processExpression cfg t g of
        Inl e \<Rightarrow> Inl e
      | Inr ((targetNodeId, t'), g1) \<Rightarrow>
          (case processFilter cfg f None g1 of
             Inl e \<Rightarrow> Inl e
           | Inr ((filterNodeId, f'), g2) \<Rightarrow>
               aggregateNode [targetNodeId, filterNodeId]
                 (AggregateExpression t' aggregation r None a) a g2))"
| "processExpression cfg (MathExpression operator operands a) g =
     (case processOperands cfg operands g of
        Inl e \<Rightarrow> Inl e
      | Inr ((operandNodeIds, operands'), g1) \<Rightarrow>
          (case addNewNode TExpression operandNodeIds None
                  (ExpressionNode (MathExpression operator operands' a) a) g1 of
             (k, g2) \<Rightarrow> Inr ((k, MathExpression operator operands' a), g2)))"
| "processFilter cfg (CompositeFilter operator fs) otherInputs g =
     (case processFilters cfg fs g of
        Inl e \<Rightarrow> Inl e
      | Inr ((ins, fs'), g1) \<Rightarrow>
          (case addNewNode TCompositeFilter (withOtherInputs ins otherInputs) None
                  (CompositeFilterNode operator) g1 of
             (k, g2) \<Rightarrow> Inr ((k, CompositeFilter operator fs'), g2)))"
| "processFilter cfg (SimpleFilter t operator v) otherInputs g =
     (case processExpression cfg t g of
        Inl e \<Rightarrow> Inl e
      | Inr ((targetNodeId, t'), g1) \<Rightarrow>
          (case processExpression cfg v g1 of
             Inl e \<Rightarrow> Inl e
           | Inr ((valueNodeId, v'), g2) \<Rightarrow>
               (case simpleFilterNode targetNodeId valueNodeId operator otherInputs g2 of
                  Inl e \<Rightarrow> Inl e
                | Inr (k, g3) \<Rightarrow> Inr ((k, SimpleFilter t' operator v'), g3))))"
| "processOperands cfg [] g = Inr (([], []), g)"
| "processOperands cfg (x # xs) g =
     (case processExpression cfg x g of
        Inl e \<Rightarrow> Inl e
      | Inr ((k, x'), g1) \<Rightarrow>
          (case processOperands cfg xs g1 of
             Inl e \<Rightarrow> Inl e
           | Inr ((ks, xs'), g2) \<Rightarrow> Inr ((k # ks, x' # xs'), g2)))"
| "processFilters cfg [] g = Inr (([], []), g)"
| "processFilters cfg (f # fs) g =
     (case processFilter cfg f None g of
        Inl e \<Rightarrow> Inl e
      | Inr ((k, f'), g1) \<Rightarrow>
          (case processFilters cfg fs g1 of
             Inl e \<Rightarrow> Inl e
           | Inr ((ks, fs'), g2) \<Rightarrow> Inr ((k # ks, f' # fs'), g2)))"

text \<open>\<open>UserQuery\<close>: the fields the compiler reads.\<close>

record SortCriteria =
  sortExpression :: Expression
  sortDirection :: string

datatype GroupingCriteria =
    Dimension string
  | TopN string int "Expression option"

record UserQuery =
  queryFilter :: Filter
  group_by :: "GroupingCriteria list option"
  sort_by :: "SortCriteria list option"
  queryLimit :: "int option"

text \<open>\<open>processSort(sorts)\<close>.\<close>

definition processSort ::
  "QueryBuilderConfig \<Rightarrow> SortCriteria list \<Rightarrow> ComputeGraph \<Rightarrow> NodeID Build" where
  "processSort cfg sorts g =
     (case processOperands cfg (map sortExpression sorts) g of
        Inl e \<Rightarrow> Inl e
      | Inr ((sortInputs, es), g1) \<Rightarrow>
          Inr (addNewNode TSort (unique sortInputs) None
                 (Sort (map (\<lambda>(k, s). \<lparr> expression = k, direction = sortDirection s \<rparr>)
                          (zip sortInputs sorts))) g1))"

text \<open>
  \<open>processGroupBy(groups)\<close>: \<open>dimensionNode\<close> is the branch of a plain dimension (also reached
  through \<open>this.processGroupBy([dimension])[0]\<close>), \<open>topNNodes\<close> adds the sort and limit nodes of
  a top-N criterion.
\<close>

definition dimensionNode ::
  "QueryBuilderConfig \<Rightarrow> string \<Rightarrow> ComputeGraph \<Rightarrow> NodeID Build" where
  "dimensionNode cfg dimName g =
     (case map_of (columnMappings cfg) dimName of
        None \<Rightarrow> Inl (GroupingDimensionNotFound dimName)
      | Some col \<Rightarrow>
          (case findOrCreateSourceNode cfg (table col) g of
             (sourceNodeId, g1) \<Rightarrow>
               Inr (addNewNode TProjection [sourceNodeId]
                      (Some (emptyMetadata\<lparr>isGrouping := True\<rparr>))
                      (Projection [NameColumn (column col) (Some dimName) (Some sourceNodeId)])
                      g1)))"

definition topNNodes ::
  "string \<Rightarrow> int \<Rightarrow> NodeID \<Rightarrow> NodeID option \<Rightarrow> ComputeGraph \<Rightarrow> NodeID \<times> ComputeGraph" where
  "topNNodes dimension topLimit dimensionNodeId expressionNodeId g =
     (case addNewNode TSort
             (dimensionNodeId # (case expressionNodeId of None \<Rightarrow> [] | Some k \<Rightarrow> if k = [] then [] else [k]))
             (Some (emptyMetadata\<lparr>isGrouped := True, groupDimension := Some dimension,
                                   metaLimit := Some topLimit\<rparr>))
             (Sort [\<lparr> expression = orElse expressionNodeId dimensionNodeId,
                      direction = ''desc'' \<rparr>]) g of
        (sortNodeId, g1) \<Rightarrow>
          addNewNode TLimit [sortNodeId]
            (Some (emptyMetadata\<lparr>isGrouped := True, groupDimension := Some dimension\<rparr>))
            (Limit topLimit) g1)"

fun processGroupBy ::
  "QueryBuilderConfig \<Rightarrow> GroupingCriteria list \<Rightarrow> ComputeGraph \<Rightarrow> (NodeID list) Build" where
  "processGroupBy cfg [] g = Inr ([], g)"
| "processGroupBy cfg (Dimension dimName # rest) g =
     (case dimensionNode cfg dimName g of
        Inl e \<Rightarrow> Inl e
      | Inr (k, g1) \<Rightarrow>
          (case processGroupBy cfg rest g1 of
             Inl e \<Rightarrow> Inl e
           | Inr (ks, g2) \<Rightarrow> Inr (k # ks, g2)))"
| "processGroupBy cfg (TopN dimension topLimit expr # rest) g =
     (case dimensionNode cfg dimension g of
        Inl e \<Rightarrow> Inl e
      | Inr (dimensionNodeId, g1) \<Rightarrow>
          (case (case expr of
                   None \<Rightarrow> Inr (None, g1)
                 | Some ex \<Rightarrow>
                     (case processExpression cfg ex g1 of
                        Inl e \<Rightarrow> Inl e
                      | Inr ((k, ex'), g2) \<Rightarrow> Inr (Some k, g2))) of
             Inl e \<Rightarrow> Inl e
           | Inr (expressionNodeId, g2) \<Rightarrow>
               (case topNNodes dimension topLimit dimensionNodeId expressionNodeId g2 of
                  (k, g3) \<Rightarrow>
                    (case processGroupBy cfg rest g3 of
                       Inl e \<Rightarrow> Inl e
                     | Inr (ks, g4) \<Rightarrow> Inr (k # ks, g4)))))"

section \<open>Join inference\<close>

text \<open>
  \<open>inferJoins\<close>.  \<open>tableToNode\<close> maps a table name to its source node; \<open>joinConditionsFrom\<close> is
  the double loop over the pairs of involved tables.  Reading a table that the configuration
  does not have ends in a \<open>TypeError\<close>.
\<close>

definition sourceTable :: "ComputeNode \<Rightarrow> string" where
  "sourceTable n = (case body n of Source t c \<Rightarrow> t | _ \<Rightarrow> ''undefined'')"

definition joinCondition ::
  "QueryBuilderConfig \<Rightarrow> (string \<times> ComputeNode) list \<Rightarrow> string \<Rightarrow> string \<Rightarrow> error + JoinCondition" where
  "joinCondition cfg tableToNode n1 n2 =
     (case (map_of (tables cfg) n1, map_of (tables cfg) n2) of
        (Some t1, Some t2) \<Rightarrow>
          (case find (\<lambda>k. k \<in> set (primaryKeys t2)) (primaryKeys t1) of
             None \<Rightarrow> Inl (NoCommonPK (tableName t1) (tableName t2))
           | Some pk \<Rightarrow>
               if pk = [] then Inl (NoCommonPK (tableName t1) (tableName t2))
               else (case (map_of tableToNode (tableName t1), map_of tableToNode (tableName t2)) of
                       (Some s1, Some s2) \<Rightarrow>
                         Inr \<lparr> joinLeft = (nodeId s1, pk), joinRight = (nodeId s2, pk),
                               joinOp = ''='' \<rparr>
                     | _ \<Rightarrow> Inl TypeError))
      | _ \<Rightarrow> Inl TypeError)"

fun sequenceResults :: "(error + 'a) list \<Rightarrow> error + 'a list" where
  "sequenceResults [] = Inr []"
| "sequenceResults (Inl e # rs) = Inl e"
| "sequenceResults (Inr x # rs) =
     (case sequenceResults rs of Inl e \<Rightarrow> Inl e | Inr xs \<Rightarrow> Inr (x # xs))"

fun tablePairs :: "string list \<Rightarrow> (string \<times> string) list" where
  "tablePairs [] = []"
| "tablePairs (t # ts) = map (\<lambda>u. (t, u)) ts @ tablePairs ts"

definition setTerminal :: "bool \<Rightarrow> NodeID \<Rightarrow> Nodes \<Rightarrow> Nodes" where
  "setTerminal b k ns = map (\<lambda>n. if nodeId n = k then n\<lparr>isTerminal := b\<rparr> else n) ns"

definition inferJoins :: "QueryBuilderConfig \<Rightarrow> ComputeGraph \<Rightarrow> error + ComputeGraph" where
  "inferJoins cfg g =
     (let sourceNodes = filter isSource (nodes g) in
      if length sourceNodes \<le> 1 then Inr g
      else
        (let tableToNode = fold (\<lambda>sn m. AList.update (sourceTable sn) sn m) sourceNodes [];
             involvedTables = map fst tableToNode
         in case sequenceResults
                   (map (\<lambda>(n1, n2). joinCondition cfg tableToNode n1 n2) (tablePairs involvedTables)) of
              Inl e \<Rightarrow> Inl e
            | Inr joinConds \<Rightarrow>
                (case addNewNode TJoin (map nodeId sourceNodes) None (Join ''INNER'' joinConds) g of
                   (joinNodeId, g1) \<Rightarrow>
                     Inr (g1\<lparr>nodes :=
                            fold (setTerminal False) (map nodeId sourceNodes)
                              (fold (\<lambda>sn ns. replaceNodeID (nodeId sn) joinNodeId None ns)
                                 sourceNodes (nodes g1))\<rparr>))))"

section \<open>Required columns\<close>

text \<open>
  \<open>ensureRequiredColumns\<close>.  \<open>reachesSource\<close> is the \<open>while (currentNode)\<close> loop that follows
  the first input of each node; on a cyclic chain it does not return, which is the value
  \<open>None\<close>.  \<open>hasTimeBasedAggregation\<close> is the \<open>some\<close> over the nodes: it stops at the first node
  for which the loop returns true.
\<close>

partial_function (option) reachesSource :: "Nodes \<Rightarrow> NodeID \<Rightarrow> ComputeNode option \<Rightarrow> bool option" where
  "reachesSource ns sourceId currentNode =
     (case currentNode of
        None \<Rightarrow> Some False
      | Some n \<Rightarrow>
          if sourceId \<in> set (inputs n) then Some True
          else reachesSource ns sourceId
                 (case inputs n of [] \<Rightarrow> None | i # rest \<Rightarrow> lookup ns i))"

declare reachesSource.simps [code]

definition isTimeAggregate :: "ComputeNode \<Rightarrow> bool" where
  "isTimeAggregate n =
     (case body n of
        ExpressionNode (AggregateExpression t aggregation (Some r) f a) al \<Rightarrow> True
      | _ \<Rightarrow> False)"

fun someReaches :: "Nodes \<Rightarrow> NodeID \<Rightarrow> ComputeNode list \<Rightarrow> bool option" where
  "someReaches ns sourceId [] = Some False"
| "someReaches ns sourceId (n # rest) =
     (if \<not> isTimeAggregate n then someReaches ns sourceId rest
      else (case reachesSource ns sourceId (Some n) of
              None \<Rightarrow> None
            | Some True \<Rightarrow> Some True
            | Some False \<Rightarrow> someReaches ns sourceId rest))"

definition hasTimeBasedAggregation :: "Nodes \<Rightarrow> NodeID \<Rightarrow> bool option" where
  "hasTimeBasedAggregation ns sourceId = someReaches ns sourceId ns"

definition isProjection :: "ComputeNode \<Rightarrow> bool" where
  "isProjection n = (case body n of Projection columns \<Rightarrow> True | _ \<Rightarrow> False)"

definition columnNames :: "ComputeNode \<Rightarrow> string list" where
  "columnNames n =
     (case body n of
        Projection columns \<Rightarrow>
          concat (map (\<lambda>col. case col of NameColumn c a s \<Rightarrow> [c] | _ \<Rightarrow> []) columns)
      | _ \<Rightarrow> [])"

definition addRequiredProjection :: "NodeID \<Rightarrow> string \<Rightarrow> ComputeGraph \<Rightarrow> ComputeGraph" where
  "addRequiredProjection sourceId col g =
     snd (addNewNode TProjection [sourceId]
            (Some (emptyMetadata\<lparr>isRequiredProjection := True\<rparr>))
            (Projection [NameColumn col None (Some sourceId)]) g)"

definition ensureColumnsOf ::
  "QueryBuilderConfig \<Rightarrow> ComputeNode \<Rightarrow> ComputeGraph \<Rightarrow> error + ComputeGraph" where
  "ensureColumnsOf cfg sourceNode g =
     (case map_of (tables cfg) (sourceTable sourceNode) of
        None \<Rightarrow> Inl TypeError
      | Some tableConfig \<Rightarrow>
          (case hasTimeBasedAggregation (nodes g) (nodeId sourceNode) of
             None \<Rightarrow> Inl NonTermination
           | Some timeBased \<Rightarrow>
               (let requiredColumns =
                      unique ((case alwaysIncludeColumns tableConfig of None \<Rightarrow> [] | Some cs \<Rightarrow> cs) @
                              (if timeBased \<and> truthy (timeColumn tableConfig)
                               then [orElse (timeColumn tableConfig) []] else []));
                    existingProjections =
                      filter (\<lambda>n. isProjection n \<and> nodeId sourceNode \<in> set (inputs n)) (nodes g);
                    projectedColumns = concat (map columnNames existingProjections);
                    missingColumns = filter (\<lambda>col. col \<notin> set projectedColumns) requiredColumns
                in Inr (fold (addRequiredProjection (nodeId sourceNode)) missingColumns g))))"

fun ensureAll ::
  "QueryBuilderConfig \<Rightarrow> ComputeNode list \<Rightarrow> ComputeGraph \<Rightarrow> error + ComputeGraph" where
  "ensureAll cfg [] g = Inr g"
| "ensureAll cfg (sourceNode # rest) g =
     (case ensureColumnsOf cfg sourceNode g of
        Inl e \<Rightarrow> Inl e
      | Inr g1 \<Rightarrow> ensureAll cfg rest g1)"

definition ensureRequiredColumns :: "QueryBuilderConfig \<Rightarrow> ComputeGraph \<Rightarrow> error + ComputeGraph" where
  "ensureRequiredColumns cfg g = ensureAll cfg (filter isSource (nodes g)) g"

text \<open>\<open>processUserQuery\<close>, run by the constructor on an empty graph.\<close>

definition processUserQuery :: "QueryBuilderConfig \<Rightarrow> UserQuery \<Rightarrow> ComputeGraph \<Rightarrow> error + ComputeGraph" where
  "processUserQuery cfg q g =
     (case processFilter cfg (queryFilter q) None g of
        Inl e \<Rightarrow> Inl e
      | Inr (r1, g1) \<Rightarrow>
          (case (case group_by q of
                   None \<Rightarrow> Inr ([], g1)
                 | Some groups \<Rightarrow> processGroupBy cfg groups g1) of
             Inl e \<Rightarrow> Inl e
           | Inr (r2, g2) \<Rightarrow>
               (case (case sort_by q of
                        None \<Rightarrow> Inr ([], g2)
                      | Some sorts \<Rightarrow> processSort cfg sorts g2) of
                  Inl e \<Rightarrow> Inl e
                | Inr (r3, g3) \<Rightarrow>
                    (let g4 = (case queryLimit q of
                                 None \<Rightarrow> g3
                               | Some l \<Rightarrow>
                                   if l = 0 then g3
                                   else snd (addNewNode TLimit [] None (Limit l) g3))
                     in case inferJoins cfg g4 of
                          Inl e \<Rightarrow> Inl e
                        | Inr g5 \<Rightarrow> ensureRequiredColumns cfg g5))))"

definition fromUserQuery :: "QueryBuilderConfig \<Rightarrow> UserQuery \<Rightarrow> error + ComputeGraph" where
  "fromUserQuery cfg q = processUserQuery cfg q emptyGraph"

section \<open>Optimizer: the other passes\<close>

text \<open>
  A pass iterates over a snapshot of node objects (\<open>Object.values(this.nodes)\<close>) while it
  mutates nodes and removes them from the table.  Node ids are unique and never reused, so an
  object is identified by its id: a pass that only reads snapshot nodes still in the table
  looks them up by id; \<open>mergeFilters\<close>, which also reads removed nodes, carries the snapshot
  along.  \<open>inputs.sort()\<close> is the in-place default sort of an array of strings.
\<close>

definition sortInputs :: "ComputeNode \<Rightarrow> ComputeNode" where
  "sortInputs n = n\<lparr>inputs := sort (inputs n)\<rparr>"

definition columnKey :: "Column \<Rightarrow> string" where
  "columnKey col = (case col of NameColumn c a s \<Rightarrow> c | ExpressionColumn e a s \<Rightarrow> ''[object Object]'')"

definition columnsOf :: "ComputeNode \<Rightarrow> Column list" where
  "columnsOf n = (case body n of Projection columns \<Rightarrow> columns | _ \<Rightarrow> [])"

text \<open>
  \<open>removedDuplicateProjections\<close>: one step for a normal projection and one for a required
  projection; \<open>uniqueProjections\<close> maps a key to the id of the projection kept for it.
\<close>

definition dedupNormal :: "NodeID \<Rightarrow> (string \<times> NodeID) list \<times> Nodes \<Rightarrow> (string \<times> NodeID) list \<times> Nodes" where
  "dedupNormal k state =
     (case state of
        (uniqueProjections, ns) \<Rightarrow>
          (case lookup ns k of
             None \<Rightarrow> state
           | Some node0 \<Rightarrow>
               (let node = sortInputs node0;
                    ns1 = map (\<lambda>n. if nodeId n = k then sortInputs n else n) ns;
                    ns2 = map (\<lambda>n. if k \<in> set (inputs n) then sortInputs n else n) ns1;
                    dependents = findDependentNodes ns2 k;
                    key = joinWith '','' (inputs node) @ joinWith '','' (map columnKey (columnsOf node)) @
                          joinWith '','' (map (\<lambda>d. joinWith '','' (inputs d)) dependents)
                in case map_of uniqueProjections key of
                     None \<Rightarrow> (uniqueProjections @ [(key, k)], ns2)
                   | Some keptId \<Rightarrow>
                       (uniqueProjections, removeNode k (replaceNodeID k keptId None ns2)))))"

definition dedupRequired :: "NodeID \<Rightarrow> (string \<times> NodeID) list \<times> Nodes \<Rightarrow> (string \<times> NodeID) list \<times> Nodes" where
  "dedupRequired k state =
     (case state of
        (uniqueProjections, ns) \<Rightarrow>
          (case lookup ns k of
             None \<Rightarrow> state
           | Some node0 \<Rightarrow>
               (let node = sortInputs node0;
                    ns1 = map (\<lambda>n. if nodeId n = k then sortInputs n else n) ns;
                    key = ''required_'' @ joinWith '','' (inputs node) @ ''_'' @
                          joinWith '','' (map columnKey (columnsOf node))
                in case map_of uniqueProjections key of
                     None \<Rightarrow> (uniqueProjections @ [(key, k)], ns1)
                   | Some keptId \<Rightarrow>
                       (uniqueProjections, removeNode k (replaceNodeID k keptId None ns1)))))"

definition removedDuplicateProjections :: "Nodes \<Rightarrow> Nodes" where
  "removedDuplicateProjections ns =
     (let projectionNodes = filter isProjection ns;
          normalProjections = filter (\<lambda>n. \<not> metaFlag isRequiredProjection n) projectionNodes;
          requiredProjections = filter (metaFlag isRequiredProjection) projectionNodes
      in snd (fold dedupRequired (map nodeId requiredProjections)
                (fold dedupNormal (map nodeId normalProjections) ([], ns))))"

text \<open>
  \<open>mergeFilters\<close>.  The state of the loop is the snapshot and the graph.  The comparison
  \<open>JSON.stringify(n.inputs.sort()) === JSON.stringify(node.inputs.sort())\<close> sorts, in place,
  the inputs of every other filter of the snapshot and, when there is one, of the node
  itself.  After the table has changed, the snapshot nodes that are still in the table are the
  table's nodes (\<open>syncSnapshot\<close>).
\<close>

definition isFilterType :: "ComputeNode \<Rightarrow> bool" where
  "isFilterType n = (case body n of FilterNode c \<Rightarrow> True | CompositeFilterNode operator \<Rightarrow> True
                     | _ \<Rightarrow> False)"

definition syncSnapshot :: "Nodes \<Rightarrow> ComputeNode list \<Rightarrow> ComputeNode list" where
  "syncSnapshot ns snapshot =
     map (\<lambda>n. case lookup ns (nodeId n) of None \<Rightarrow> n | Some n' \<Rightarrow> n') snapshot"

definition redirectInputs :: "NodeID \<Rightarrow> NodeID \<Rightarrow> Nodes \<Rightarrow> Nodes" where
  "redirectInputs newId oldId ns =
     map (\<lambda>d. if oldId \<in> set (inputs d)
               then d\<lparr>inputs := map (\<lambda>i. if i = oldId then newId else i) (inputs d)\<rparr> else d) ns"

definition mergeStep :: "NodeID \<Rightarrow> ComputeNode list \<times> ComputeGraph \<Rightarrow> ComputeNode list \<times> ComputeGraph" where
  "mergeStep k state =
     (case state of
        (snapshot, g) \<Rightarrow>
          (case find (\<lambda>n. nodeId n = k) snapshot of
             None \<Rightarrow> state
           | Some node0 \<Rightarrow>
               if \<not> isFilterType node0 then state
               else
                 (let others = map nodeId (filter (\<lambda>n. isFilterType n \<and> nodeId n \<noteq> k) snapshot);
                      sorted = (if others = [] then [] else k # others);
                      sortIn = map (\<lambda>n. if nodeId n \<in> set sorted then sortInputs n else n);
                      snapshot1 = sortIn snapshot;
                      g1 = g\<lparr>nodes := sortIn (nodes g)\<rparr>;
                      node = (if others = [] then node0 else sortInputs node0);
                      relatedFilters =
                        filter (\<lambda>n. isFilterType n \<and> nodeId n \<noteq> k \<and> inputs n = inputs node) snapshot1
                  in if relatedFilters = [] then (snapshot1, g1)
                     else
                       (case addNewNode TCompositeFilter (inputs node) None
                               (CompositeFilterNode ''and'') g1 of
                          (newId, g2) \<Rightarrow>
                            (let allAffectedIds = k # map nodeId relatedFilters;
                                 ns3 = fold removeNode allAffectedIds (nodes g2);
                                 ns4 = fold (redirectInputs newId) allAffectedIds ns3
                             in (syncSnapshot ns4 snapshot1, g2\<lparr>nodes := ns4\<rparr>))))))"

definition mergeFilters :: "ComputeGraph \<Rightarrow> ComputeGraph" where
  "mergeFilters g = snd (fold mergeStep (map nodeId (nodes g)) (nodes g, g))"

text \<open>\<open>removeUselessCompositeFilters\<close>.\<close>

definition isCompositeFilter :: "ComputeNode \<Rightarrow> bool" where
  "isCompositeFilter n = (case body n of CompositeFilterNode operator \<Rightarrow> True | _ \<Rightarrow> False)"

definition spliceComposite :: "NodeID \<Rightarrow> Nodes \<Rightarrow> Nodes" where
  "spliceComposite k ns =
     (case lookup ns k of
        None \<Rightarrow> ns
      | Some node \<Rightarrow>
          (case inputs node of
             [x] \<Rightarrow> removeNode k (redirectInputs x k ns)
           | _ \<Rightarrow> ns))"

definition removeUselessCompositeFilters :: "Nodes \<Rightarrow> Nodes" where
  "removeUselessCompositeFilters ns =
     fold spliceComposite (map nodeId (filter isCompositeFilter ns)) ns"

text \<open>
  \<open>areExpressionsEqual\<close> and \<open>areFiltersEqual\<close>.  \<open>strictEq\<close> is \<open>===\<close> on constant values: two
  arrays are two objects and never equal.
\<close>

definition strictEq :: "int ParameterValue \<Rightarrow> int ParameterValue \<Rightarrow> bool" where
  "strictEq v w =
     (case (v, w) of
        (VString a, VString b) \<Rightarrow> a = b
      | (VNumber a, VNumber b) \<Rightarrow> a = b
      | (VBoolean a, VBoolean b) \<Rightarrow> a = b
      | _ \<Rightarrow> False)"

definition sameRangeType :: "TimeRange \<Rightarrow> TimeRange \<Rightarrow> bool" where
  "sameRangeType r s =
     (case (r, s) of
        (AbsoluteTimeRange a b, AbsoluteTimeRange c d) \<Rightarrow> True
      | (RelativeTimeRange a b, RelativeTimeRange c d) \<Rightarrow> True
      | (TradingTimeRange a b, TradingTimeRange c d) \<Rightarrow> True
      | _ \<Rightarrow> False)"

fun areExpressionsEqual :: "Expression \<Rightarrow> Expression \<Rightarrow> bool"
  and areFiltersEqual :: "Filter \<Rightarrow> Filter \<Rightarrow> bool"
  and everyExpressionEqual :: "Expression list \<Rightarrow> Expression list \<Rightarrow> bool"
  and everyFilterEqual :: "Filter list \<Rightarrow> Filter list \<Rightarrow> bool"
where
  "areExpressionsEqual (ConstantExpression v1 a1) expr2 =
     (case expr2 of ConstantExpression v2 a2 \<Rightarrow> a1 = a2 \<and> strictEq v1 v2 | _ \<Rightarrow> False)"
| "areExpressionsEqual (MetricExpression m1 f1 a1) expr2 =
     (case expr2 of MetricExpression m2 f2 a2 \<Rightarrow> a1 = a2 \<and> m1 = m2 | _ \<Rightarrow> False)"
| "areExpressionsEqual (AggregateExpression t1 g1 r1 f1 a1) expr2 =
     (case expr2 of
        AggregateExpression t2 g2 r2 f2 a2 \<Rightarrow>
          a1 = a2 \<and> g1 = g2 \<and>
          (case (r1, r2) of
             (Some x, Some y) \<Rightarrow> sameRangeType x y
           | (None, None) \<Rightarrow> True
           | _ \<Rightarrow> False) \<and>
          areExpressionsEqual t1 t2 \<and>
          (case f1 of
             Some x \<Rightarrow> (case f2 of Some y \<Rightarrow> areFiltersEqual x y | None \<Rightarrow> False)
           | None \<Rightarrow> (case f2 of Some y \<Rightarrow> False | None \<Rightarrow> True))
      | _ \<Rightarrow> False)"
| "areExpressionsEqual (MathExpression o1 ops1 a1) expr2 =
     (case expr2 of
        MathExpression o2 ops2 a2 \<Rightarrow>
          a1 = a2 \<and> o1 = o2 \<and> length ops1 = length ops2 \<and> everyExpressionEqual ops1 ops2
      | _ \<Rightarrow> False)"
| "areFiltersEqual (SimpleFilter t1 o1 v1) filter2 =
     (case filter2 of
        SimpleFilter t2 o2 v2 \<Rightarrow> areExpressionsEqual t1 t2 \<and> areExpressionsEqual v1 v2 \<and> o1 = o2
      | _ \<Rightarrow> False)"
| "areFiltersEqual (CompositeFilter o1 fs1) filter2 =
     (case filter2 of
        CompositeFilter o2 fs2 \<Rightarrow> o1 = o2 \<and> length fs1 = length fs2 \<and> everyFilterEqual fs1 fs2
      | _ \<Rightarrow> False)"
| "everyExpressionEqual [] ys = True"
| "everyExpressionEqual (x # xs) ys =
     (case ys of [] \<Rightarrow> False | y # ys' \<Rightarrow> areExpressionsEqual x y \<and> everyExpressionEqual xs ys')"
| "everyFilterEqual [] ys = True"
| "everyFilterEqual (x # xs) ys =
     (case ys of [] \<Rightarrow> False | y # ys' \<Rightarrow> areFiltersEqual x y \<and> everyFilterEqual xs ys')"

text \<open>
  \<open>removeDuplicateProjectionExpressions\<close>.  The third \<open>filter\<close> reads \<open>parent.type\<close> of the
  first input of each candidate; when that input is not in the table the read throws.
\<close>

definition expressionOf :: "ComputeNode \<Rightarrow> Expression" where
  "expressionOf n = (case body n of ExpressionNode e a \<Rightarrow> e
                     | _ \<Rightarrow> ConstantExpression (VString []) None)"

fun withProjectionParent :: "Nodes \<Rightarrow> ComputeNode list \<Rightarrow> error + ComputeNode list" where
  "withProjectionParent ns [] = Inr []"
| "withProjectionParent ns (n # rest) =
     (case lookup ns (hd (inputs n)) of
        None \<Rightarrow> Inl TypeError
      | Some parent \<Rightarrow>
          (case withProjectionParent ns rest of
             Inl e \<Rightarrow> Inl e
           | Inr xs \<Rightarrow> Inr (if isProjection parent then n # xs else xs)))"

definition dedupExpression :: "NodeID \<Rightarrow> ComputeNode list \<times> Nodes \<Rightarrow> ComputeNode list \<times> Nodes" where
  "dedupExpression k state =
     (case state of
        (uniqueExpressions, ns) \<Rightarrow>
          (case lookup ns k of
             None \<Rightarrow> state
           | Some expr \<Rightarrow>
               (case find (\<lambda>e. areExpressionsEqual (expressionOf e) (expressionOf expr))
                       uniqueExpressions of
                  None \<Rightarrow> (uniqueExpressions @ [expr], ns)
                | Some previousExpr \<Rightarrow>
                    (let ns1 = replaceNodeID k (nodeId previousExpr) None ns;
                         ns2 = removeNode k ns1
                     in case lookup ns1 k of
                          None \<Rightarrow> (uniqueExpressions, ns2)
                        | Some expr1 \<Rightarrow>
                            (case inputs expr1 of
                               [] \<Rightarrow> (uniqueExpressions, ns2)
                             | i # rest \<Rightarrow> (uniqueExpressions, removeNode i ns2))))))"

definition removeDuplicateProjectionExpressions :: "Nodes \<Rightarrow> error + Nodes" where
  "removeDuplicateProjectionExpressions ns =
     (case withProjectionParent ns
             (filter (\<lambda>n. length (findDependentNodes ns (nodeId n)) = 1)
                (filter (\<lambda>n. length (inputs n) = 1) (filter isExpressionNode ns))) of
        Inl e \<Rightarrow> Inl e
      | Inr expressions \<Rightarrow> Inr (snd (fold dedupExpression (map nodeId expressions) ([], ns))))"

text \<open>
  \<open>optimize()\<close> as the service and \<open>buildQuery\<close> call it, with \<open>risky = false\<close>: the two passes
  behind \<open>if (risky)\<close> do not run.  \<open>rewritePasses\<close> is the body of \<open>optimize\<close> before its last
  statement, \<open>this.ensureRequiredColumns()\<close>.
\<close>

definition rewritePasses :: "ComputeGraph \<Rightarrow> error + ComputeGraph" where
  "rewritePasses g =
     (let g1 = g\<lparr>nodes := inlineParameters (removedDuplicateProjections (nodes g))\<rparr>;
          g2 = mergeFilters g1;
          g3 = g2\<lparr>nodes := removeUselessCompositeFilters (nodes g2)\<rparr>
      in case removeDuplicateProjectionExpressions (nodes g3) of
           Inl e \<Rightarrow> Inl e
         | Inr ns \<Rightarrow> Inr (g3\<lparr>nodes := ns\<rparr>))"

definition optimize :: "QueryBuilderConfig \<Rightarrow> ComputeGraph \<Rightarrow> error + ComputeGraph" where
  "optimize cfg g =
     (case rewritePasses g of
        Inl e \<Rightarrow> Inl e
      | Inr g1 \<Rightarrow> ensureRequiredColumns cfg g1)"

section \<open>Specification vocabulary for the graph claims\<close>

text \<open>
  \<open>dependsOn\<close> is the edge relation "node k lists i in its inputs"; \<open>inputsExist\<close> says that
  every input of every node is a key of the graph; \<open>depsFirst\<close> says that in a list of nodes
  every input of a node is the id of a node at a smaller index.  \<open>stateOk\<close> is the invariant of
  the traversal and \<open>visitPost\<close> its postcondition: the traversal either ends in a
  \<open>CycleDetected\<close> error naming a node that lies on a cycle, or keeps the invariant.
\<close>

definition dependsOn :: "Nodes \<Rightarrow> (NodeID \<times> NodeID) set" where
  "dependsOn ns = {(k, i). \<exists>n \<in> set ns. nodeId n = k \<and> i \<in> set (inputs n)}"

definition inputsExist :: "Nodes \<Rightarrow> bool" where
  "inputsExist ns = (\<forall>n \<in> set ns. set (inputs n) \<subseteq> set (keys ns))"

definition depsFirst :: "ComputeNode list \<Rightarrow> bool" where
  "depsFirst order = (\<forall>i < length order. set (inputs (order ! i)) \<subseteq> nodeId ` set (take i order))"

definition stateOk :: "Nodes \<Rightarrow> VisitState \<Rightarrow> bool" where
  "stateOk ns s \<longleftrightarrow>
     visited s = nodeId ` set (orderedNodes s) \<and> distinct (map nodeId (orderedNodes s)) \<and>
     set (orderedNodes s) \<subseteq> set ns \<and> visited s \<inter> processing s = {} \<and>
     depsFirst (orderedNodes s)"

definition cycleError :: "Nodes \<Rightarrow> error \<Rightarrow> bool" where
  "cycleError ns e = (\<exists>m. e = CycleDetected m \<and> (m, m) \<in> (dependsOn ns)\<^sup>+)"

definition visitPost :: "Nodes \<Rightarrow> VisitState \<Rightarrow> NodeID set \<Rightarrow> error + VisitState \<Rightarrow> bool" where
  "visitPost ns s done r =
     (case r of
        Inl e \<Rightarrow> cycleError ns e
      | Inr s' \<Rightarrow> stateOk ns s' \<and> processing s' = processing s \<and> visited s \<subseteq> visited s' \<and>
                  done \<subseteq> visited s')"

section \<open>Example graphs\<close>

definition removeNodeExample :: Nodes where
  "removeNodeExample =
     [\<lparr> nodeId = ''source_1'', inputs = [], isTerminal = False, metadata = None,
         body = Source ''daily_agg'' (Some ''date'') \<rparr>,
      \<lparr> nodeId = ''projection_1'', inputs = [''source_1''], isTerminal = True, metadata = None,
         body = Projection [NameColumn ''close'' None (Some ''source_1'')] \<rparr>]"

definition orderExample :: Nodes where
  "orderExample =
     [\<lparr> nodeId = ''filter_1'', inputs = [''proj_1''], isTerminal = True, metadata = None,
         body = FilterNode \<lparr> left = InputSide ''proj_1'' ''close'',
                              right = ExpressionSide (ConstantExpression (VNumber 100) None),
                              op = ''gt'' \<rparr> \<rparr>,
      \<lparr> nodeId = ''proj_1'', inputs = [''src_1''], isTerminal = False, metadata = None,
         body = Projection [NameColumn ''close'' None None] \<rparr>,
      \<lparr> nodeId = ''src_1'', inputs = [], isTerminal = False, metadata = None,
         body = Source ''daily_agg'' None \<rparr>]"

definition cycleExample :: Nodes where
  "cycleExample =
     [\<lparr> nodeId = ''node_1'', inputs = [''node_2''], isTerminal = False, metadata = None,
         body = Source ''daily_agg'' None \<rparr>,
      \<lparr> nodeId = ''node_2'', inputs = [''node_1''], isTerminal = True, metadata = None,
         body = Projection [NameColumn ''close'' None None] \<rparr>]"

definition cycleDanglingExample :: Nodes where
  "cycleDanglingExample =
     [\<lparr> nodeId = ''node_1'', inputs = [''node_2''], isTerminal = False, metadata = None,
         body = Source ''daily_agg'' None \<rparr>,
      \<lparr> nodeId = ''node_2'', inputs = [''node_3'', ''node_1''], isTerminal = True, metadata = None,
         body = Projection [NameColumn ''close'' None None] \<rparr>]"



section \<open>Example configurations and queries\<close>

text \<open>
  The market-data configuration as the specification describes the default one: tables
  \<open>tickers\<close> and \<open>daily_agg\<close> share the primary key \<open>ticker\<close>, \<open>daily_agg\<close> has the time column
  \<open>date\<close> and always includes \<open>ticker\<close> and \<open>date\<close>.
\<close>

definition exampleConfig :: QueryBuilderConfig where
  "exampleConfig =
     \<lparr> tables =
         [(''tickers'', \<lparr> tableName = ''tickers'', timeColumn = None, primaryKeys = [''ticker''],
                          alwaysIncludeColumns = None \<rparr>),
          (''daily_agg'', dailyAgg)],
       columnMappings =
         [(''sector'', \<lparr> table = ''tickers'', column = ''sector'' \<rparr>),
          (''country'', \<lparr> table = ''tickers'', column = ''country'' \<rparr>),
          (''close'', \<lparr> table = ''daily_agg'', column = ''close'' \<rparr>),
          (''volume'', \<lparr> table = ''daily_agg'', column = ''volume'' \<rparr>)] \<rparr>"


text \<open>The filter \<open>'Technology' eq sector\<close>: the constant is the target, the metric the value.\<close>

definition constantTargetQuery :: UserQuery where
  "constantTargetQuery =
     \<lparr> queryFilter = SimpleFilter (ConstantExpression (VString ''Technology'') None) ''eq''
                       (MetricExpression ''sector'' None None),
       group_by = None, sort_by = None, queryLimit = None \<rparr>"

text \<open>The filter \<open>close * 2 gt 100\<close>: a math expression with a constant operand.\<close>

definition mathConstantQuery :: UserQuery where
  "mathConstantQuery =
     \<lparr> queryFilter = SimpleFilter
                       (MathExpression ''*'' [MetricExpression ''close'' None None,
                                              ConstantExpression (VNumber 2) None] None)
                       ''gt'' (ConstantExpression (VNumber 100) None),
       group_by = None, sort_by = None, queryLimit = None \<rparr>"


text \<open>Build the graph of a query and optimize it, as \<open>buildQuery\<close> does; the ids and inputs of a graph.\<close>

definition buildAndOptimize :: "QueryBuilderConfig \<Rightarrow> UserQuery \<Rightarrow> error + ComputeGraph" where
  "buildAndOptimize cfg q =
     (case fromUserQuery cfg q of Inl e \<Rightarrow> Inl e | Inr g \<Rightarrow> optimize cfg g)"

definition edges :: "ComputeGraph \<Rightarrow> (NodeID \<times> NodeID list) list" where
  "edges g = map (\<lambda>n. (nodeId n, inputs n)) (nodes g)"

definition conditionOf :: "ComputeGraph \<Rightarrow> NodeID \<Rightarrow> Condition option" where
  "conditionOf g k =
     (case lookup (nodes g) k of
        Some n \<Rightarrow> (case body n of FilterNode cond \<Rightarrow> Some cond | _ \<Rightarrow> None)
      | None \<Rightarrow> None)"

section \<open>Properties of removeNode\<close>

text \<open>
  C3 (removeNode restores the terminal flag of former inputs).  The reference test of
  \<open>removeNode\<close> runs while the removed node is still in the graph, so the removed node itself
  counts as a reference: removing the only consumer \<open>projection_1\<close> of \<open>source_1\<close> leaves
  \<open>source_1\<close> with \<open>isTerminal = false\<close> although no remaining node lists it as an input.
\<close>

theorem removeNode_leaves_input_nonterminal:
  "removeNode ''projection_1'' removeNodeExample =
     [\<lparr> nodeId = ''source_1'', inputs = [], isTerminal = False, metadata = None,
         body = Source ''daily_agg'' (Some ''date'') \<rparr>]
   \<and> \<not> isStillReferenced (removeNode ''projection_1'' removeNodeExample) ''source_1''"
  by (simp add: removeNode_def removeNodeExample_def lookup_def adjustInput_def
      isStillReferenced_def delete_def)


section \<open>Properties of getExecutionOrder\<close>

lemma lookup_Some: "lookup ns k = Some n \<Longrightarrow> n \<in> set ns \<and> nodeId n = k"
  by (auto simp: lookup_def find_Some_iff)

lemma lookup_None: "lookup ns k = None \<longleftrightarrow> k \<notin> set (keys ns)"
  by (auto simp: lookup_def find_None_iff keys_def)

lemma depsFirst_snoc:
  "depsFirst (xs @ [x]) \<longleftrightarrow> depsFirst xs \<and> set (inputs x) \<subseteq> nodeId ` set xs"
proof
  assume a: "depsFirst (xs @ [x])"
  have "depsFirst xs"
    unfolding depsFirst_def
  proof (intro allI impI)
    fix i assume i: "i < length xs"
    then have "set (inputs ((xs @ [x]) ! i)) \<subseteq> nodeId ` set (take i (xs @ [x]))"
      using a by (simp add: depsFirst_def)
    then show "set (inputs (xs ! i)) \<subseteq> nodeId ` set (take i xs)"
      using i by (simp add: nth_append)
  qed
  moreover have "set (inputs x) \<subseteq> nodeId ` set xs"
    using a[unfolded depsFirst_def, rule_format, of "length xs"] by simp
  ultimately show "depsFirst xs \<and> set (inputs x) \<subseteq> nodeId ` set xs" ..
next
  assume a: "depsFirst xs \<and> set (inputs x) \<subseteq> nodeId ` set xs"
  show "depsFirst (xs @ [x])"
    unfolding depsFirst_def
  proof (intro allI impI)
    fix i assume i: "i < length (xs @ [x])"
    show "set (inputs ((xs @ [x]) ! i)) \<subseteq> nodeId ` set (take i (xs @ [x]))"
    proof (cases "i < length xs")
      case True
      then show ?thesis using a by (simp add: depsFirst_def nth_append)
    next
      case False
      then have "i = length xs" using i by simp
      then show ?thesis using a by simp
    qed
  qed
qed

lemma visit_correct:
  shows "inputsExist ns \<longrightarrow> stateOk ns s \<longrightarrow> k \<in> set (keys ns) \<longrightarrow> (\<forall>p \<in> processing s. (p, k) \<in> (dependsOn ns)\<^sup>+) \<longrightarrow>
           visitPost ns s {k} (visit ns k s)"
    and "inputsExist ns \<longrightarrow> stateOk ns s \<longrightarrow> (\<exists>node. lookup ns k = Some node \<and> set ins \<subseteq> set (inputs node)) \<longrightarrow>
           (\<forall>p \<in> processing s. (p, k) \<in> (dependsOn ns)\<^sup>*) \<longrightarrow>
           visitPost ns s (set ins) (visitInputs ns k ins s)"
proof (induction ns k s and ns k ins s rule: visit_visitInputs.induct)
  case (1 ns k s)
  show ?case
  proof (intro impI)
    assume ie: "inputsExist ns" and ok: "stateOk ns s" and kin: "k \<in> set (keys ns)"
      and path: "\<forall>p \<in> processing s. (p, k) \<in> (dependsOn ns)\<^sup>+"
    show "visitPost ns s {k} (visit ns k s)"
    proof (cases "k \<in> processing s")
      case True
      then have "(k, k) \<in> (dependsOn ns)\<^sup>+" using path by blast
      then show ?thesis using True by (simp add: visit.simps[of ns k s] visitPost_def cycleError_def)
    next
      case np: False
      show ?thesis
      proof (cases "k \<in> visited s")
        case True
        then show ?thesis using np ok by (simp add: visit.simps[of ns k s] visitPost_def)
      next
        case nv: False
        from kin obtain node where node: "lookup ns k = Some node"
          by (cases "lookup ns k") (auto simp: lookup_None)
        let ?s1 = "s\<lparr>processing := insert k (processing s)\<rparr>"
        have ok1: "stateOk ns ?s1" using ok nv by (auto simp: stateOk_def)
        have path1: "\<forall>p \<in> processing ?s1. (p, k) \<in> (dependsOn ns)\<^sup>*"
          using path by auto
        have ex0: "\<exists>node'. lookup ns k = Some node' \<and> set (inputs node) \<subseteq> set (inputs node')"
          using node by simp
        have post: "visitPost ns ?s1 (set (inputs node)) (visitInputs ns k (inputs node) ?s1)"
          by (rule "1.IH"[OF np nv node, rule_format, OF ie ok1 ex0 path1[rule_format]])
        show ?thesis
        proof (cases "visitInputs ns k (inputs node) ?s1")
          case (Inl e)
          then show ?thesis using post np nv node by (simp add: visit.simps[of ns k s] visitPost_def)
        next
          case (Inr s2)
          from post Inr have ok2: "stateOk ns s2" and p2: "processing s2 = insert k (processing s)"
            and v2: "visited s \<subseteq> visited s2" and i2: "set (inputs node) \<subseteq> visited s2"
            by (simp_all add: visitPost_def)
          have knv: "k \<notin> visited s2" using ok2 p2 by (auto simp: stateOk_def)
          have nin: "node \<in> set ns" "nodeId node = k" using lookup_Some[OF node] by auto
          let ?s3 = "s2\<lparr>processing := processing s2 - {k}, visited := insert k (visited s2),
                        orderedNodes := orderedNodes s2 @ [node]\<rparr>"
          have "stateOk ns ?s3"
            unfolding stateOk_def
          proof (intro conjI)
            show "visited ?s3 = nodeId ` set (orderedNodes ?s3)"
              using ok2 nin by (simp add: stateOk_def)
            show "distinct (map nodeId (orderedNodes ?s3))"
              using ok2 nin knv by (simp add: stateOk_def)
            show "set (orderedNodes ?s3) \<subseteq> set ns"
              using ok2 nin by (simp add: stateOk_def)
            show "visited ?s3 \<inter> processing ?s3 = {}"
              using ok2 by (auto simp: stateOk_def)
            show "depsFirst (orderedNodes ?s3)"
              using ok2 i2 by (simp add: stateOk_def depsFirst_snoc)
          qed
          moreover have "processing ?s3 = processing s" using p2 np by auto
          ultimately show ?thesis using Inr np nv node v2 by (auto simp: visit.simps[of ns k s] visitPost_def)
        qed
      qed
    qed
  qed
next
  case (2 ns k s)
  show ?case by (simp add: visitPost_def)
next
  case (3 ns k inputId rest s)
  show ?case
  proof (intro impI)
    assume ie: "inputsExist ns" and ok: "stateOk ns s"
      and ex: "\<exists>node. lookup ns k = Some node \<and> set (inputId # rest) \<subseteq> set (inputs node)"
      and path: "\<forall>p \<in> processing s. (p, k) \<in> (dependsOn ns)\<^sup>*"
    from ex obtain node where node: "lookup ns k = Some node" "set (inputId # rest) \<subseteq> set (inputs node)"
      by blast
    have nin: "node \<in> set ns" "nodeId node = k" using lookup_Some[OF node(1)] by auto
    have "set (inputs node) \<subseteq> set (keys ns)" using ie nin(1) by (simp add: inputsExist_def)
    then have iin: "inputId \<in> set (keys ns)" using node(2) by auto
    then have ex1: "lookup ns inputId \<noteq> None" by (simp add: lookup_None)
    from ex1 obtain inode where inode: "lookup ns inputId = Some inode" by auto
    have edge: "(k, inputId) \<in> dependsOn ns" using nin node(2) by (auto simp: dependsOn_def)
    have path1: "\<forall>p \<in> processing s. (p, inputId) \<in> (dependsOn ns)\<^sup>+"
      using path edge by (meson rtrancl_into_trancl1)
    have post1: "visitPost ns s {inputId} (visit ns inputId s)"
      by (rule "3.IH"(1)[OF ex1, rule_format, OF ie ok iin path1[rule_format]])
    show "visitPost ns s (set (inputId # rest)) (visitInputs ns k (inputId # rest) s)"
    proof (cases "visit ns inputId s")
      case (Inl e)
      then show ?thesis using post1 inode by (simp add: visitPost_def)
    next
      case (Inr s1)
      from post1 Inr have ok1: "stateOk ns s1" and p1: "processing s1 = processing s"
        and v1: "visited s \<subseteq> visited s1" and i1: "inputId \<in> visited s1"
        by (simp_all add: visitPost_def)
      have ex2: "\<exists>node. lookup ns k = Some node \<and> set rest \<subseteq> set (inputs node)"
        using node by auto
      have path2: "\<And>p. p \<in> processing s1 \<Longrightarrow> (p, k) \<in> (dependsOn ns)\<^sup>*"
        using path p1 by simp
      have post2: "visitPost ns s1 (set rest) (visitInputs ns k rest s1)"
        by (rule "3.IH"(2)[OF ex1 Inr, rule_format, OF ie ok1 ex2 path2])
      show ?thesis
      proof (cases "visitInputs ns k rest s1")
        case (Inl e)
        then show ?thesis using post2 Inr inode by (simp add: visitPost_def)
      next
        case (Inr s2)
        then show ?thesis using post2 \<open>visit ns inputId s = Inr s1\<close> inode p1 v1 i1
          by (auto simp: visitPost_def)
      qed
    qed
  qed
qed


lemma visitAll_correct:
  "inputsExist ns \<Longrightarrow> stateOk ns s \<Longrightarrow> processing s = {} \<Longrightarrow> set ks \<subseteq> set (keys ns) \<Longrightarrow>
     (case visitAll ns ks s of
        Inl e \<Rightarrow> cycleError ns e
      | Inr s' \<Rightarrow> stateOk ns s' \<and> processing s' = {} \<and> visited s \<subseteq> visited s' \<and>
                  set ks \<subseteq> visited s')"
proof (induction ks arbitrary: s)
  case Nil
  then show ?case by simp
next
  case (Cons k ks)
  have post: "visitPost ns s {k} (visit ns k s)"
    using visit_correct(1)[of ns s k] Cons.prems by simp
  show ?case
  proof (cases "visit ns k s")
    case (Inl e)
    then show ?thesis using post by (simp add: visitPost_def)
  next
    case (Inr s1)
    from post Inr have s1: "stateOk ns s1" "processing s1 = {}" "visited s \<subseteq> visited s1"
      "k \<in> visited s1"
      using Cons.prems(3) by (simp_all add: visitPost_def)
    have "case visitAll ns ks s1 of
            Inl e \<Rightarrow> cycleError ns e
          | Inr s' \<Rightarrow> stateOk ns s' \<and> processing s' = {} \<and> visited s1 \<subseteq> visited s' \<and>
                      set ks \<subseteq> visited s'"
      using Cons.IH[OF Cons.prems(1) s1(1) s1(2)] Cons.prems(4) by simp
    then show ?thesis using Inr s1 by (auto split: sum.splits)
  qed
qed

lemma stateOk_initial: "stateOk ns initialState"
  by (simp add: stateOk_def initialState_def depsFirst_def)

lemma getExecutionOrder_result:
  assumes ie: "inputsExist ns" and d: "distinct (keys ns)"
  shows "case getExecutionOrder ns of
           Inl e \<Rightarrow> cycleError ns e
         | Inr order \<Rightarrow> distinct order \<and> set order = set ns \<and> length order = length ns \<and>
                        depsFirst order"
proof -
  let ?srcs = "map nodeId (filter isSource ns)"
  have sub: "set ?srcs \<subseteq> set (keys ns)" by (auto simp: keys_def)
  have p0: "processing initialState = {}" by (simp add: initialState_def)
  have r1: "case visitAll ns ?srcs initialState of
              Inl e \<Rightarrow> cycleError ns e
            | Inr s' \<Rightarrow> stateOk ns s' \<and> processing s' = {} \<and> visited initialState \<subseteq> visited s' \<and>
                        set ?srcs \<subseteq> visited s'"
    by (rule visitAll_correct[OF ie stateOk_initial p0 sub])
  show ?thesis
  proof (cases "visitAll ns ?srcs initialState")
    case (Inl e)
    then show ?thesis using r1 by (simp add: getExecutionOrder_def)
  next
    case (Inr s1)
    then have s1: "stateOk ns s1" "processing s1 = {}" using r1 by simp_all
    have r2: "case visitAll ns (keys ns) s1 of
              Inl e \<Rightarrow> cycleError ns e
            | Inr s' \<Rightarrow> stateOk ns s' \<and> processing s' = {} \<and> visited s1 \<subseteq> visited s' \<and>
                        set (keys ns) \<subseteq> visited s'"
      by (rule visitAll_correct[OF ie s1 subset_refl])
    show ?thesis
    proof (cases "visitAll ns (keys ns) s1")
      case (Inl e)
      then show ?thesis using r2 Inr by (simp add: getExecutionOrder_def)
    next
      case s2: (Inr s2)
      let ?order = "orderedNodes s2"
      from r2 s2 have ok: "stateOk ns s2" and all: "set (keys ns) \<subseteq> visited s2" by simp_all
      have dids: "distinct (map nodeId ?order)" and sub2: "set ?order \<subseteq> set ns"
        and vis: "visited s2 = nodeId ` set ?order" and df: "depsFirst ?order"
        using ok by (simp_all add: stateOk_def)
      have dorder: "distinct ?order" using dids by (rule distinct_map[THEN iffD1, THEN conjunct1])
      have "set ns \<subseteq> set ?order"
      proof
        fix n assume n: "n \<in> set ns"
        then have "nodeId n \<in> nodeId ` set ?order" using all vis by (auto simp: keys_def)
        then obtain m where m: "m \<in> set ?order" "nodeId m = nodeId n" by auto
        then have "m \<in> set ns" using sub2 by auto
        then have "m = n" using d n m(2) by (auto simp: keys_def distinct_map inj_on_def)
        then show "n \<in> set ?order" using m(1) by simp
      qed
      then have seteq: "set ?order = set ns" using sub2 by auto
      have dns: "distinct ns" using d by (simp add: keys_def distinct_map)
      have "length ?order = length ns"
        using dorder dns seteq by (metis distinct_card)
      then show ?thesis using Inr s2 dorder seteq df by (simp add: getExecutionOrder_def)
    qed
  qed
qed

lemma dependsOn_cong: "set xs = set ys \<Longrightarrow> dependsOn xs = dependsOn ys"
  by (simp add: dependsOn_def)

lemma takeWhile_position:
  "distinct (map f xs) \<Longrightarrow> j < length xs \<Longrightarrow> length (takeWhile (\<lambda>n. f n \<noteq> f (xs ! j)) xs) = j"
proof (induction xs arbitrary: j)
  case Nil
  then show ?case by simp
next
  case (Cons x xs)
  show ?case
  proof (cases j)
    case 0
    then show ?thesis by simp
  next
    case (Suc j')
    then have "f x \<noteq> f (xs ! j')" using Cons.prems by auto
    then show ?thesis using Suc Cons by simp
  qed
qed

lemma takeWhile_first:
  "j < length xs \<Longrightarrow> \<not> P (xs ! j) \<Longrightarrow> length (takeWhile P xs) \<le> j"
proof (induction xs arbitrary: j)
  case Nil
  then show ?case by simp
next
  case (Cons x xs)
  then show ?case by (cases j) auto
qed

lemma depsFirst_acyclic:
  assumes d: "distinct (map nodeId order)" and df: "depsFirst order"
  shows "acyclic (dependsOn order)"
proof (rule acyclicI_order)
  fix a b
  assume "(a, b) \<in> dependsOn order"
  then obtain n where n: "n \<in> set order" "nodeId n = a" "b \<in> set (inputs n)"
    by (auto simp: dependsOn_def)
  then obtain j where j: "j < length order" "order ! j = n" by (auto simp: in_set_conv_nth)
  have "b \<in> nodeId ` set (take j order)" using df j n(3) by (auto simp: depsFirst_def)
  then obtain m where m: "m \<in> set (take j order)" "nodeId m = b" by auto
  then obtain j' where j': "j' < j" "order ! j' = m"
    using j(1) by (auto simp: in_set_conv_nth)
  have "length (takeWhile (\<lambda>n. nodeId n \<noteq> b) order) \<le> j'"
    using takeWhile_first[of j' order "\<lambda>n. nodeId n \<noteq> b"] j' j(1) m(2) by simp
  moreover have "length (takeWhile (\<lambda>n. nodeId n \<noteq> a) order) = j"
    using takeWhile_position[OF d j(1)] j(2) n(2) by simp
  ultimately show "length (takeWhile (\<lambda>n. nodeId n \<noteq> b) order)
                   < length (takeWhile (\<lambda>n. nodeId n \<noteq> a) order)"
    using j'(1) by simp
qed

text \<open>
  C6 (execution order of a well-formed graph).  When every input of every node is a key of
  the graph and the inputs relation has no cycle, \<open>getExecutionOrder\<close> returns (it does not
  throw) a list that holds every node of the graph exactly once, so its length is the number
  of nodes, and in which every input of a node stands at a smaller index than the node.
\<close>

theorem getExecutionOrder_topological:
  assumes "distinct (keys ns)" and "inputsExist ns" and "acyclic (dependsOn ns)"
  shows "\<exists>order. getExecutionOrder ns = Inr order \<and> length order = length ns \<and>
           distinct order \<and> set order = set ns \<and> depsFirst order"
proof (cases "getExecutionOrder ns")
  case (Inl e)
  then have "cycleError ns e" using getExecutionOrder_result[OF assms(2) assms(1)] by simp
  then show ?thesis using assms(3) by (auto simp: cycleError_def acyclic_def)
next
  case (Inr order)
  then show ?thesis using getExecutionOrder_result[OF assms(2) assms(1)] by simp
qed

text \<open>
  C7, amended (cycle detection).  When every input of every node is a key of the graph and
  the inputs relation has a cycle, \<open>getExecutionOrder\<close> throws \<open>CycleDetected m\<close>, and the node
  \<open>m\<close> it names lies on a cycle of the inputs relation.
\<close>

theorem getExecutionOrder_cycle:
  assumes "distinct (keys ns)" and "inputsExist ns" and "\<not> acyclic (dependsOn ns)"
  shows "\<exists>m. getExecutionOrder ns = Inl (CycleDetected m) \<and> (m, m) \<in> (dependsOn ns)\<^sup>+"
proof (cases "getExecutionOrder ns")
  case (Inl e)
  then have "cycleError ns e" using getExecutionOrder_result[OF assms(2) assms(1)] by simp
  then show ?thesis using Inl by (auto simp: cycleError_def)
next
  case (Inr order)
  then have r: "distinct order" "set order = set ns" "depsFirst order"
    using getExecutionOrder_result[OF assms(2) assms(1)] by simp_all
  have "distinct ns" using assms(1) by (simp add: keys_def distinct_map)
  have "inj_on nodeId (set ns)" using assms(1) by (simp add: keys_def distinct_map)
  then have "distinct (map nodeId order)" using r(1,2) by (simp add: distinct_map)
  then have "acyclic (dependsOn order)" using r(3) by (rule depsFirst_acyclic)
  then have "acyclic (dependsOn ns)" using dependsOn_cong[OF r(2)] by simp
  then show ?thesis using assms(3) by simp
qed


lemma orderExample_acyclic: "acyclic (dependsOn orderExample)"
proof (rule acyclicI_order)
  fix a b assume "(a, b) \<in> dependsOn orderExample"
  then show "length b < length a"
    by (auto simp: dependsOn_def orderExample_def)
qed

theorem getExecutionOrder_topological_witness:
  "distinct (keys orderExample) \<and> inputsExist orderExample \<and> acyclic (dependsOn orderExample) \<and>
   (\<exists>order. getExecutionOrder orderExample = Inr order \<and> length order = length orderExample \<and>
      distinct order \<and> set order = set orderExample \<and> depsFirst order)"
proof -
  have h1: "distinct (keys orderExample)" by (simp add: keys_def orderExample_def)
  have h2: "inputsExist orderExample" by (simp add: inputsExist_def keys_def orderExample_def)
  show ?thesis
    using h1 h2 orderExample_acyclic getExecutionOrder_topological[OF h1 h2 orderExample_acyclic]
    by blast
qed

lemma cycleExample_cyclic: "(''node_1'', ''node_1'') \<in> (dependsOn cycleExample)\<^sup>+"
proof -
  have "(''node_1'', ''node_2'') \<in> dependsOn cycleExample"
    by (simp add: dependsOn_def cycleExample_def)
  moreover have "(''node_2'', ''node_1'') \<in> dependsOn cycleExample"
    by (simp add: dependsOn_def cycleExample_def)
  ultimately show ?thesis by (rule trancl_into_trancl[OF r_into_trancl])
qed

theorem getExecutionOrder_cycle_witness:
  "distinct (keys cycleExample) \<and> inputsExist cycleExample \<and> \<not> acyclic (dependsOn cycleExample) \<and>
   (\<exists>m. getExecutionOrder cycleExample = Inl (CycleDetected m) \<and>
      (m, m) \<in> (dependsOn cycleExample)\<^sup>+)"
proof -
  have h1: "distinct (keys cycleExample)" by (simp add: keys_def cycleExample_def)
  have h2: "inputsExist cycleExample" by (simp add: inputsExist_def keys_def cycleExample_def)
  have h3: "\<not> acyclic (dependsOn cycleExample)"
    using cycleExample_cyclic by (auto simp: acyclic_def)
  show ?thesis
    using h1 h2 h3 getExecutionOrder_cycle[OF h1 h2 h3] by blast
qed

text \<open>
  C7 as stated quantifies over every graph with a cycle.  A graph with a cycle in which a node
  on the cycle also lists a missing input makes \<open>getExecutionOrder\<close> throw the missing-input
  error, not \<open>CycleDetected\<close>: the existence test of an input runs before the input is visited.
\<close>

theorem getExecutionOrder_cycle_counterexample:
  "(''node_1'', ''node_1'') \<in> (dependsOn cycleDanglingExample)\<^sup>+ \<and>
   getExecutionOrder cycleDanglingExample = Inl (DanglingInput ''node_2'' ''node_3'')"
proof
  have "(''node_1'', ''node_2'') \<in> dependsOn cycleDanglingExample"
    by (simp add: dependsOn_def cycleDanglingExample_def)
  moreover have "(''node_2'', ''node_1'') \<in> dependsOn cycleDanglingExample"
    by (simp add: dependsOn_def cycleDanglingExample_def)
  ultimately show "(''node_1'', ''node_1'') \<in> (dependsOn cycleDanglingExample)\<^sup>+"
    by (rule trancl_into_trancl[OF r_into_trancl])
next
  show "getExecutionOrder cycleDanglingExample = Inl (DanglingInput ''node_2'' ''node_3'')"
    by (simp add: getExecutionOrder_def cycleDanglingExample_def isSource_def initialState_def
        lookup_def keys_def visit.simps)
qed

section \<open>Properties of createParameter\<close>

lemma digitVal_digitChar: "d < 10 \<Longrightarrow> digitVal (digitChar d) = d"
proof -
  assume "d < 10"
  then have "d \<in> {0,1,2,3,4,5,6,7,8,9}" by auto
  then show ?thesis
    by (auto simp: digitVal_def digitChar_def)
qed

lemma readNat_showNat: "readNat (showNat n) = n"
proof (induction n rule: showNat.induct)
  case (1 n)
  show ?case
  proof (cases "n < 10")
    case True
    then show ?thesis by (simp add: showNat.simps[of n] digitVal_digitChar)
  next
    case False
    then have "readNat (showNat (n div 10)) = n div 10" using 1 by simp
    then show ?thesis using False
      by (simp add: showNat.simps[of n] digitVal_digitChar)
  qed
qed

lemma showNat_inj: "showNat n = showNat m \<Longrightarrow> n = m"
  by (metis readNat_showNat)


lemma update_fresh: "k \<notin> fst ` set al \<Longrightarrow> AList.update k v al = al @ [(k, v)]"
  by (induction al) auto

lemma paramName_fresh:
  "map fst ps = paramNames (length ps) \<Longrightarrow> paramName ps \<notin> fst ` set ps"
proof
  assume a: "map fst ps = paramNames (length ps)" and b: "paramName ps \<in> fst ` set ps"
  have "fst ` set ps = set (paramNames (length ps))" using a by (metis set_map)
  then obtain i where "i \<in> set [1..<Suc (length ps)]" "paramName ps = ''param_'' @ showNat i"
    using b by (auto simp: paramNames_def)
  then have "showNat (length ps + 1) = showNat i" "i \<le> length ps" by (auto simp: paramName_def)
  then show False using showNat_inj by fastforce
qed

lemma paramNames_Suc: "paramNames (Suc n) = paramNames n @ [''param_'' @ showNat (Suc n)]"
  by (simp add: paramNames_def)

lemma createParameter_step:
  assumes inv: "map fst ps = paramNames (length ps)"
    and r: "createParameter String v operator ps = Inr (out, ps')"
  shows "map fst ps' = paramNames (length ps') \<and>
         map snd ps' = map snd ps @ (case stored (v, operator) of None \<Rightarrow> [] | Some w \<Rightarrow> [w])"
proof -
  have upd: "\<And>w. AList.update (paramName ps) w ps = ps @ [(paramName ps, w)]"
    using paramName_fresh[OF inv] by (rule update_fresh)
  have names: "\<And>w. map fst (ps @ [(paramName ps, w)]) = paramNames (length (ps @ [(paramName ps, w)]))"
    using inv by (simp add: paramNames_Suc paramName_def)
  show ?thesis
  proof (cases v)
    case (VString s)
    then show ?thesis using r upd names
      by (auto simp: createParameter_def likeWrap_def likeOperator_def paramName_def Let_def
          split: option.splits if_splits)
  next
    case (VNumber n)
    then show ?thesis using r inv by (auto simp: createParameter_def likeWrap_def Let_def)
  next
    case (VBoolean b)
    then show ?thesis using r inv by (auto simp: createParameter_def likeWrap_def Let_def)
  next
    case (VArray xs)
    then show ?thesis using r upd names inv
      by (cases xs) (auto simp: createParameter_def likeWrap_def paramName_def Let_def
          split: if_splits)
  qed
qed

lemma createParameters_names:
  "map fst ps = paramNames (length ps) \<Longrightarrow> createParameters String vs ps = Inr (outs, ps') \<Longrightarrow>
     map fst ps' = paramNames (length ps') \<and> map snd ps' = map snd ps @ List.map_filter stored vs"
proof (induction vs arbitrary: ps outs)
  case Nil
  then show ?case by (simp add: List.map_filter_simps)
next
  case (Cons a vs)
  obtain v operator where a: "a = (v, operator)" by (cases a)
  from Cons.prems(2) a obtain out ps1 outs1 where
    s1: "createParameter String v operator ps = Inr (out, ps1)"
    and s2: "createParameters String vs ps1 = Inr (outs1, ps')"
    by (auto split: sum.splits prod.splits)
  from createParameter_step[OF Cons.prems(1) s1]
  have i1: "map fst ps1 = paramNames (length ps1)"
    and v1: "map snd ps1 = map snd ps @ (case stored (v, operator) of None \<Rightarrow> [] | Some w \<Rightarrow> [w])"
    by simp_all
  from Cons.IH[OF i1 s2] have "map fst ps' = paramNames (length ps')"
    and "map snd ps' = map snd ps1 @ List.map_filter stored vs" by simp_all
  then show ?case using v1 a by (simp add: List.map_filter_simps split: option.splits)
qed

text \<open>
  C8 (createParameter).  A number is inlined as \<open>String(n)\<close> and a boolean as \<open>1\<close> or \<open>0\<close>, and
  neither changes the parameter table; an empty array gives the literal \<open>[]\<close>, also without a
  slot; a string (wrapped as \<open>%value%\<close> when the operator includes \<open>LIKE\<close>) is stored and
  returned as \<open>{param_i: String}\<close>; a non-empty array whose elements all have one type is stored
  and returned as \<open>{param_i: Array(String)}\<close>, \<open>{param_i: Array(Float64)}\<close> or
  \<open>{param_i: Array(Boolean)}\<close>; a non-empty array of mixed types throws the mixed-type error;
  and after any run of successful calls on an empty table the names of the table are
  \<open>param_1, param_2, ...\<close> in insertion order, holding the stored values in call order.
\<close>

theorem createParameter_spec:
  "createParameter String (VNumber n) operator ps = Inr (String n, ps)
   \<and> createParameter String (VBoolean b) operator ps = Inr (if b then ''1'' else ''0'', ps)
   \<and> createParameter String (VArray []) operator ps = Inr (''[]'', ps)
   \<and> createParameter String (VString s) operator ps =
       Inr (placeholder (paramName ps) ''String'',
            AList.update (paramName ps)
              (VString (if likeOperator operator then ''%'' @ s @ ''%'' else s)) ps)
   \<and> (xs \<noteq> [] \<and> sameTypes xs \<longrightarrow>
        createParameter String (VArray xs) operator ps =
          Inr (placeholder (paramName ps) (arrayType (hd xs)),
               AList.update (paramName ps) (VArray xs) ps)
        \<and> arrayType (hd xs) \<in> {''Array(String)'', ''Array(Float64)'', ''Array(Boolean)''})
   \<and> (xs \<noteq> [] \<and> \<not> sameTypes xs \<longrightarrow>
        createParameter String (VArray xs) operator ps = Inl MixedTypeArray)
   \<and> (createParameters String vs [] = Inr (outs, ps') \<longrightarrow>
        map fst ps' = paramNames (length ps') \<and> map snd ps' = List.map_filter stored vs)"
proof (intro conjI impI)
  show "createParameter String (VNumber n) operator ps = Inr (String n, ps)"
    by (simp add: createParameter_def likeWrap_def)
  show "createParameter String (VBoolean b) operator ps = Inr (if b then ''1'' else ''0'', ps)"
    by (simp add: createParameter_def likeWrap_def)
  show "createParameter String (VArray []) operator ps = Inr (''[]'', ps)"
    by (simp add: createParameter_def likeWrap_def)
  show "createParameter String (VString s) operator ps =
       Inr (placeholder (paramName ps) ''String'',
            AList.update (paramName ps)
              (VString (if likeOperator operator then ''%'' @ s @ ''%'' else s)) ps)"
    by (simp add: createParameter_def likeWrap_def likeOperator_def paramName_def Let_def
        split: option.splits)
next
  assume a: "xs \<noteq> [] \<and> sameTypes xs"
  then obtain x rest where xs: "xs = x # rest" by (cases xs) auto
  then show "createParameter String (VArray xs) operator ps =
          Inr (placeholder (paramName ps) (arrayType (hd xs)),
               AList.update (paramName ps) (VArray xs) ps)"
    using a by (simp add: createParameter_def likeWrap_def paramName_def sameTypes_def Let_def)
  show "arrayType (hd xs) \<in> {''Array(String)'', ''Array(Float64)'', ''Array(Boolean)''}"
    by (simp add: arrayType_def split: TypeOf.splits)
next
  assume a: "xs \<noteq> [] \<and> \<not> sameTypes xs"
  then obtain x rest where xs: "xs = x # rest" by (cases xs) auto
  then show "createParameter String (VArray xs) operator ps = Inl MixedTypeArray"
    using a by (simp add: createParameter_def likeWrap_def sameTypes_def Let_def)
next
  assume a: "createParameters String vs [] = Inr (outs, ps')"
  have "map fst ([] :: 'a Parameters) = paramNames (length ([] :: 'a Parameters))"
    by (simp add: paramNames_def)
  from createParameters_names[OF this a]
  show "map fst ps' = paramNames (length ps')" and "map snd ps' = List.map_filter stored vs"
    by simp_all
qed

lemma parameterRun_result:
  "createParameters numberToString parameterRun [] =
     Inr ([''{param_1: String}'', ''100'', ''{param_2: String}'', ''1'', ''[]'',
           ''{param_3: Array(Float64)}''],
          [(''param_1'', VString ''Technology''), (''param_2'', VString ''%Inc%''),
           (''param_3'', VArray [Num 1, Num 2])])"
  by code_simp

theorem createParameter_spec_witness:
  "[Str ''a'', Str ''b''] \<noteq> [] \<and> sameTypes [Str ''a'', Str ''b'' :: int Scalar]
   \<and> createParameter numberToString (VArray [Str ''a'', Str ''b'']) None [] =
       Inr (''{param_1: Array(String)}'', [(''param_1'', VArray [Str ''a'', Str ''b''])])
   \<and> [Str ''a'', Num 1] \<noteq> [] \<and> \<not> sameTypes [Str ''a'', Num (1::int)]
   \<and> createParameter numberToString (VArray [Str ''a'', Num 1]) None [] = Inl MixedTypeArray
   \<and> map fst [(''param_1'', VString ''Technology''), (''param_2'', VString ''%Inc%''),
           (''param_3'', VArray [Num (1::int), Num 2])] = [''param_1'', ''param_2'', ''param_3'']"
proof -
  have s1: "sameTypes [Str ''a'', Str ''b'' :: int Scalar]" by (simp add: sameTypes_def)
  have s2: "\<not> sameTypes [Str ''a'', Num (1::int)]" by (simp add: sameTypes_def)
  have n3: "paramNames 3 = [''param_1'', ''param_2'', ''param_3'']" by code_simp
  have n1: "paramName ([] :: int Parameters) = ''param_1''" by code_simp
  note a = createParameter_spec[of numberToString 0 None "[]" True "''x''" "[Str ''a'', Str ''b'']"
      parameterRun "[''{param_1: String}'', ''100'', ''{param_2: String}'', ''1'', ''[]'',
           ''{param_3: Array(Float64)}'']" "[(''param_1'', VString ''Technology''), (''param_2'', VString ''%Inc%''),
           (''param_3'', VArray [Num 1, Num 2])]"]
  note b = createParameter_spec[of numberToString 0 None "[]" True "''x''" "[Str ''a'', Num 1]"
      "[]" "[]" "[]"]
  have c1: "createParameter numberToString (VArray [Str ''a'', Str ''b'']) None [] =
       Inr (''{param_1: Array(String)}'', [(''param_1'', VArray [Str ''a'', Str ''b''])])"
    using a s1 n1 by (simp add: placeholder_def arrayType_def)
  have c2: "createParameter numberToString (VArray [Str ''a'', Num 1]) None [] = Inl MixedTypeArray"
    using b s2 by simp
  have c3: "map fst [(''param_1'', VString ''Technology''), (''param_2'', VString ''%Inc%''),
           (''param_3'', VArray [Num (1::int), Num 2])] = [''param_1'', ''param_2'', ''param_3'']"
    using a parameterRun_result n3 by (simp add: numeral_3_eq_3)
  show ?thesis using s1 s2 c1 c2 c3 by simp
qed


section \<open>Properties of the SQL emitter\<close>

text \<open>
  C4 (PREWHERE of an absolute range).  The absolute branch subtracts \<open>86400\<close> from a time value
  in milliseconds, that is 86.4 seconds and not one day.  For \<open>from = 1704110400\<close>
  (2024-01-01T12:00:00Z) and \<open>to = 1735603200\<close> (2024-12-31T00:00:00Z) the PREWHERE clause starts
  at \<open>toDate('2024-01-01')\<close>, the date of \<open>from\<close> itself, while one day before \<open>from\<close> is
  2023-12-31.
\<close>

theorem prewhere_absolute_leeway_is_86_seconds:
  "addLargestTimeRangeFilter [dailyAgg] [AbsoluteTimeRange 1704110400 1735603200] =
     Inr [''daily_agg.date BETWEEN toDate('2024-01-01') AND toDate('2024-12-31')'']
   \<and> isoDate (1704110400 * 1000) = Inr ''2024-01-01''
   \<and> isoDate ((1704110400 - 86400) * 1000) = Inr ''2023-12-31''"
  by code_simp

text \<open>
  For \<open>from\<close> at midnight, the example of the specification, the date does move to the day
  before: 86.4 seconds before midnight is the previous day.
\<close>

lemma prewhere_absolute_midnight:
  "addLargestTimeRangeFilter [dailyAgg] [AbsoluteTimeRange 1704067200 1735603200] =
     Inr [''daily_agg.date BETWEEN toDate('2023-12-31') AND toDate('2024-12-31')'']"
  by code_simp

text \<open>
  C5 (clause order).  The body of a CTE is assembled with QUALIFY before WHERE: for a group
  with one window predicate and one plain predicate the text is
  \<open>SELECT .. FROM .. QUALIFY .. WHERE ..\<close>.  The main query, assembled by \<open>assembleSQL\<close>, puts
  WHERE before QUALIFY.
\<close>

theorem cte_body_puts_qualify_before_where:
  "assembleCTE [''close'', ''volume''] ''FROM daily_agg'' [] [''last_close_30day > 100'']
     [''volume > 1000''] [] [] '''' =
     ''SELECT close, volume'' @ newline @ ''FROM daily_agg'' @ newline @
     ''QUALIFY last_close_30day > 100'' @ newline @ ''WHERE volume > 1000''
   \<and> assembleSQL \<lparr> sql = '''', cols = [''close'', ''volume''], fromStmt = '' FROM cte_0'',
        preFilters = [], filters = [''volume > 1000''], qualify = [''last_close_30day > 100''],
        groupBy = [], orderBy = [], limitSql = '''' \<rparr> =
     ''SELECT close, volume'' @ newline @ '' FROM cte_0'' @ newline @
     ''WHERE volume > 1000'' @ newline @ ''QUALIFY last_close_30day > 100''"
  by (simp add: assembleCTE_def assembleSQL_def unique_def)

section \<open>Properties of translateFilter\<close>

lemma collectParts_all_ok:
  "list_all returns rs \<Longrightarrow>
     \<exists>w. collectParts rs = Inr (filter (\<lambda>s. s \<noteq> []) (map resultSql rs), w)"
proof (induction rs)
  case Nil
  then show ?case by auto
next
  case (Cons r rs)
  then obtain s w where r: "r = Inr (s, w)" by (cases r) (auto simp: returns_def)
  from Cons obtain w' where "collectParts rs = Inr (filter (\<lambda>s. s \<noteq> []) (map resultSql rs), w')"
    by auto
  moreover have "resultSql r = s" using r by (simp add: resultSql_def)
  ultimately show ?case using r by auto
qed

lemma find_filter_hd:
  "find P xs = (case filter P xs of [] \<Rightarrow> None | y # ys \<Rightarrow> Some y)"
  by (induction xs) auto

text \<open>
  C10 (\<open>not\<close> with several children).  For a composite-filter node with operator \<open>not\<close> whose
  children are all translated without an exception, \<open>translateFilter\<close> returns \<open>NOT (c1)\<close>,
  where \<open>c1\<close> is the SQL of the first child (in input order, ignored ids left out) whose SQL
  is not empty, and the empty string when there is none: the SQL of every later child is
  dropped.  The input schema accepts a \<open>not\<close> composite with any positive number of valid
  children.
\<close>

theorem translateFilter_not_keeps_first_child:
  assumes "body node = CompositeFilterNode ''not''"
    and "childrenTranslate depth simple ns ignoreIds
           (filter (\<lambda>cid. cid \<notin> set ignoreIds) (inputs node))"
  shows "(\<exists>touchesWindow.
           translateFilter (Suc depth) simple ns ignoreIds (Some node) =
             Inr (case find (\<lambda>s. s \<noteq> [])
                         (map (childSql depth simple ns ignoreIds)
                            (filter (\<lambda>cid. cid \<notin> set ignoreIds) (inputs node))) of
                    None \<Rightarrow> []
                  | Some c1 \<Rightarrow> ''NOT ('' @ c1 @ '')'',
                  touchesWindow))
         \<and> (fs \<noteq> [] \<and> list_all filterSchema fs \<longrightarrow> filterSchema (CompositeFilter ''not'' fs))"
proof -
  let ?cids = "filter (\<lambda>cid. cid \<notin> set ignoreIds) (inputs node)"
  let ?rs = "map (\<lambda>cid. translateFilter depth simple ns ignoreIds (lookup ns cid)) ?cids"
  let ?sqls = "map (childSql depth simple ns ignoreIds) ?cids"
  have ok: "list_all returns ?rs"
    using assms(2) by (simp add: childrenTranslate_def list_all_iff)
  have sqls: "map resultSql ?rs = ?sqls"
    by (simp add: resultSql_def childSql_def)
  have "\<exists>w. collectParts ?rs = Inr (filter (\<lambda>s. s \<noteq> []) (map resultSql ?rs), w)"
    by (rule collectParts_all_ok[OF ok])
  then have "\<exists>w. collectParts ?rs = Inr (filter (\<lambda>s. s \<noteq> []) ?sqls, w)"
    unfolding sqls .
  then obtain w where cp: "collectParts ?rs = Inr (filter (\<lambda>s. s \<noteq> []) ?sqls, w)" ..
  have schema: "fs \<noteq> [] \<and> list_all filterSchema fs \<longrightarrow> filterSchema (CompositeFilter ''not'' fs)"
    by simp
  have "\<exists>touchesWindow.
           translateFilter (Suc depth) simple ns ignoreIds (Some node) =
             Inr (case find (\<lambda>s. s \<noteq> []) ?sqls of
                    None \<Rightarrow> []
                  | Some c1 \<Rightarrow> ''NOT ('' @ c1 @ '')'',
                  touchesWindow)"
  proof (cases "filter (\<lambda>s. s \<noteq> []) ?sqls")
    case Nil
    then have "find (\<lambda>s. s \<noteq> []) ?sqls = None" by (simp add: find_filter_hd)
    then show ?thesis using assms(1) cp Nil by auto
  next
    case (Cons c1 rest)
    then have "find (\<lambda>s. s \<noteq> []) ?sqls = Some c1" by (simp add: find_filter_hd)
    then show ?thesis using assms(1) cp Cons by auto
  qed
  then show ?thesis using schema by blast
qed

theorem translateFilter_not_keeps_first_child_witness:
  "body notNodeExample = CompositeFilterNode ''not''
   \<and> childrenTranslate 1 simpleExample notGraphExample []
        (filter (\<lambda>cid. cid \<notin> set []) (inputs notNodeExample))
   \<and> (\<exists>touchesWindow.
         translateFilter 2 simpleExample notGraphExample [] (Some notNodeExample) =
           Inr (''NOT (sector = {param_1: String})'', touchesWindow))
   \<and> childSql 1 simpleExample notGraphExample [] ''filter_2'' = ''country = {param_2: String}''
   \<and> filterSchema notFilterExample"
proof -
  have h1: "body notNodeExample = CompositeFilterNode ''not''"
    by (simp add: notNodeExample_def)
  have h2: "childrenTranslate (Suc 0) simpleExample notGraphExample []
        (filter (\<lambda>cid. cid \<notin> set []) (inputs notNodeExample))"
    by (simp add: childrenTranslate_def notNodeExample_def notGraphExample_def lookup_def
        simpleExample_def returns_def)
  have c1: "childSql (Suc 0) simpleExample notGraphExample [] ''filter_1'' =
              ''sector = {param_1: String}''"
    by (simp add: childSql_def notNodeExample_def notGraphExample_def lookup_def
        simpleExample_def sideTextExample_def mapFilterOperatorToSQL_def)
  have c2: "childSql (Suc 0) simpleExample notGraphExample [] ''filter_2'' =
              ''country = {param_2: String}''"
    by (simp add: childSql_def notNodeExample_def notGraphExample_def lookup_def
        simpleExample_def sideTextExample_def mapFilterOperatorToSQL_def)
  have fs: "list_all filterSchema
              [SimpleFilter (MetricExpression ''sector'' None None) ''eq''
                 (ConstantExpression (VString ''Technology'') None),
               SimpleFilter (MetricExpression ''country'' None None) ''eq''
                 (ConstantExpression (VString ''United States'') None)]"
    by (simp add: filterOperators_def aliasSchema_def)
  note t = translateFilter_not_keeps_first_child[OF h1 h2,
      of "[SimpleFilter (MetricExpression ''sector'' None None) ''eq''
                 (ConstantExpression (VString ''Technology'') None),
               SimpleFilter (MetricExpression ''country'' None None) ''eq''
                 (ConstantExpression (VString ''United States'') None)]"]
  have r: "\<exists>touchesWindow.
         translateFilter 2 simpleExample notGraphExample [] (Some notNodeExample) =
           Inr (''NOT (sector = {param_1: String})'', touchesWindow)"
    using t c1 c2 by (simp add: notNodeExample_def numeral_2_eq_2)
  have s: "filterSchema notFilterExample"
    using t fs unfolding notFilterExample_def by blast
  show ?thesis using h1 h2 r c2 s by simp
qed


section \<open>Properties of the optimizer\<close>

text \<open>
  C1 (inlining a parameter into a filter).  When the parameter is the left side of the
  condition and the right side names another input, \<open>inlineParameters\<close> overwrites the right
  side with the new left side: for the filter \<open>'Technology' eq sector\<close> both sides of the
  condition of \<open>filter_1\<close> become \<open>{parameter: '{param_1: String}'}\<close>, and the side
  \<open>{input: 'projection_1', metric: 'projection_1'}\<close> is lost.
\<close>

theorem inlineParameters_overwrites_right_side:
  "map_sum id (\<lambda>g. conditionOf g ''filter_1'') (fromUserQuery exampleConfig constantTargetQuery) =
     Inr (Some \<lparr> left = InputSide ''expression_1'' ''expression_1'',
                  right = InputSide ''projection_1'' ''projection_1'', op = ''eq'' \<rparr>)
   \<and> map_sum id (\<lambda>g. conditionOf (g\<lparr>nodes := inlineParameters (nodes g)\<rparr>) ''filter_1'')
        (fromUserQuery exampleConfig constantTargetQuery) =
     Inr (Some \<lparr> left = ParameterSide ''{param_1: String}'',
                  right = ParameterSide ''{param_1: String}'', op = ''eq'' \<rparr>)"
  by code_simp

text \<open>
  C2 (a constant operand of a math expression).  The query \<open>close * 2 gt 100\<close> is accepted by
  the input schema.  After the graph is built and optimized, the node \<open>expression_1\<close> of the
  constant \<open>2\<close> is gone while the math node \<open>expression_2\<close> still lists it as an input, and
  \<open>getExecutionOrder\<close> throws "Node expression_2 references non-existent input expression_1".
\<close>

theorem constant_operand_leaves_dangling_input:
  "filterSchema (queryFilter mathConstantQuery)
   \<and> map_sum id edges (fromUserQuery exampleConfig mathConstantQuery) =
       Inr [(''source_1'', []), (''projection_1'', [''source_1'']), (''expression_1'', []),
            (''expression_2'', [''projection_1'', ''expression_1'']), (''expression_3'', []),
            (''filter_1'', [''expression_2'', ''expression_3'']),
            (''projection_2'', [''source_1'']), (''projection_3'', [''source_1''])]
   \<and> map_sum id edges (buildAndOptimize exampleConfig mathConstantQuery) =
       Inr [(''source_1'', []), (''projection_1'', [''source_1'']),
            (''expression_2'', [''expression_1'', ''projection_1'']),
            (''filter_1'', [''expression_2'']),
            (''projection_2'', [''source_1'']), (''projection_3'', [''source_1''])]
   \<and> map_sum id (\<lambda>g. getExecutionOrder (nodes g)) (buildAndOptimize exampleConfig mathConstantQuery) =
       Inr (Inl (DanglingInput ''expression_2'' ''expression_1''))"
  by code_simp

section \<open>The number of nodes under the rewrite passes\<close>











lemma nodeId_sortInputs [simp]: "nodeId (sortInputs n) = nodeId n"
  by (simp add: sortInputs_def)

lemma nodeId_inlineDependent [simp]: "nodeId (inlineDependent k v n) = nodeId n"
  by (simp add: inlineDependent_def Let_def split: NodeBody.splits)




































end
